theory Spec2Isabelle
  imports Main
begin

section \<open>The chat relay: values, collaborators and responses\<close>

subsection \<open>JSON values as the handler sees them\<close>

text \<open>
  The relay is one request handler (\<^verbatim>\<open>serve(async (req) => ...)\<close>) and two provider
  clients (\<^verbatim>\<open>callGrok\<close>, \<^verbatim>\<open>callCampusAssistantAI\<close>). Everything it branches on is a
  JavaScript value that came out of \<^verbatim>\<open>JSON.parse\<close>, so values are modelled as a JSON
  datatype, and \<^verbatim>\<open>undefined\<close> (an absent property) as \<open>None\<close>. Numbers are only ever
  tested for truthiness or copied, so they are integers here.
\<close>

datatype json =
    JNull
  | JBool bool
  | JNum int
  | JStr string
  | JArr "json list"
  | JObj "(string \<times> json) list"

type_synonym jsval = "json option"

text \<open>Errors thrown inside the handler's \<^verbatim>\<open>try\<close> block, each carrying its message.\<close>

datatype js_error =
    SyntaxError string
  | TypeError string
  | RangeError string
  | NetworkError string

fun error_message :: "js_error \<Rightarrow> string" where
  "error_message (SyntaxError m) = m"
| "error_message (TypeError m) = m"
| "error_message (RangeError m) = m"
| "error_message (NetworkError m) = m"

text \<open>JavaScript truthiness: what \<^verbatim>\<open>!x\<close> and \<^verbatim>\<open>a && b\<close> test.\<close>

fun truthy :: "jsval \<Rightarrow> bool" where
  "truthy None = False"
| "truthy (Some JNull) = False"
| "truthy (Some (JBool b)) = b"
| "truthy (Some (JNum n)) = (n \<noteq> 0)"
| "truthy (Some (JStr s)) = (s \<noteq> [])"
| "truthy (Some (JArr xs)) = True"
| "truthy (Some (JObj kvs)) = True"

fun js_typeof :: "jsval \<Rightarrow> string" where
  "js_typeof None = ''undefined''"
| "js_typeof (Some JNull) = ''object''"
| "js_typeof (Some (JBool b)) = ''boolean''"
| "js_typeof (Some (JNum n)) = ''number''"
| "js_typeof (Some (JStr s)) = ''string''"
| "js_typeof (Some (JArr xs)) = ''object''"
| "js_typeof (Some (JObj kvs)) = ''object''"

text \<open>
  Property access \<^verbatim>\<open>x.name\<close> for the names the relay reads (\<^verbatim>\<open>message\<close>,
  \<^verbatim>\<open>conversationHistory\<close>, \<^verbatim>\<open>role\<close>, \<^verbatim>\<open>content\<close>, \<^verbatim>\<open>choices\<close>): it throws a
  TypeError on \<^verbatim>\<open>null\<close> and \<^verbatim>\<open>undefined\<close>, reads an object's own property, and is
  \<^verbatim>\<open>undefined\<close> on every other value. The wording of a TypeError is the runtime's; the
  model fixes one wording, and nothing below depends on it.
\<close>

fun get_member :: "jsval \<Rightarrow> string \<Rightarrow> js_error + jsval" where
  "get_member None name = Inl (TypeError (''Cannot read properties of undefined: '' @ name))"
| "get_member (Some JNull) name = Inl (TypeError (''Cannot read properties of null: '' @ name))"
| "get_member (Some (JObj kvs)) name = Inr (map_of kvs name)"
| "get_member (Some v) name = Inr None"

text \<open>Optional chaining \<^verbatim>\<open>x?.name\<close> and \<^verbatim>\<open>x?.[0]\<close>: \<^verbatim>\<open>undefined\<close> on null and undefined.\<close>

fun opt_member :: "jsval \<Rightarrow> string \<Rightarrow> jsval" where
  "opt_member (Some (JObj kvs)) name = map_of kvs name"
| "opt_member v name = None"

fun opt_index0 :: "jsval \<Rightarrow> jsval" where
  "opt_index0 (Some (JArr [])) = None"
| "opt_index0 (Some (JArr (x # xs))) = Some x"
| "opt_index0 (Some (JStr [])) = None"
| "opt_index0 (Some (JStr (c # cs))) = Some (JStr [c])"
| "opt_index0 (Some (JObj kvs)) = map_of kvs ''0''"
| "opt_index0 v = None"

text \<open>
  \<^verbatim>\<open>JSON.stringify\<close> of an object literal: a property whose value is \<^verbatim>\<open>undefined\<close> is
  left out. A response body is kept as the JSON value that is serialised.
\<close>

fun stringify_fields :: "(string \<times> jsval) list \<Rightarrow> (string \<times> json) list" where
  "stringify_fields [] = []"
| "stringify_fields ((k, None) # kvs) = stringify_fields kvs"
| "stringify_fields ((k, Some v) # kvs) = (k, v) # stringify_fields kvs"

definition stringify_object :: "(string \<times> jsval) list \<Rightarrow> json" where
  "stringify_object kvs = JObj (stringify_fields kvs)"

subsection \<open>Constants of the relay\<close>

fun join_lines :: "string list \<Rightarrow> string" where
  "join_lines [] = []"
| "join_lines [l] = l"
| "join_lines (l # ls) = l @ CHR 0x0A # join_lines ls"

definition IARE_SYSTEM_PROMPT :: string where
  "IARE_SYSTEM_PROMPT = join_lines
    [''You are a friendly and helpful AI Assistant for the Institute of Aeronautical Engineering (IARE), Dundigal, Hyderabad. Your role is to assist students, parents, and visitors with IARE-specific queries.'',
     '''',
     ''About IARE:'',
     ''- Full Name: Institute of Aeronautical Engineering'',
     ''- Location: Dundigal, Hyderabad, Telangana, India'',
     ''- Established: 2000'',
     ''- Affiliation: Jawaharlal Nehru Technological University Hyderabad (JNTUH)'',
     (''- Accreditation: NAAC '' @ [CHR 0x27] @ ''A++'' @ [CHR 0x27] @ '' Grade, NBA Accredited programs''),
     ''- Campus: 32 acres with modern infrastructure'',
     '''',
     ''Departments & Courses:'',
     ''- Aeronautical Engineering'',
     ''- Computer Science & Engineering (CSE)'',
     ''- Information Technology (IT)'',
     ''- Electronics & Communication Engineering (ECE)'',
     ''- Electrical & Electronics Engineering (EEE)'',
     ''- Mechanical Engineering'',
     ''- Civil Engineering'',
     ''- MBA & MCA programs'',
     '''',
     ''Key Information:'',
     ''- Admissions: Through TS EAMCET / ECET / ICET / Management quota'',
     ''- Academic Year: June to May'',
     ''- Placements: 90%+ placement record with top recruiters like TCS, Infosys, Wipro, Amazon, Microsoft'',
     ''- Facilities: Library, hostels, sports complex, labs, Wi-Fi campus, cafeteria'',
     ''- Contact: +91-40-24193276, info@iare.ac.in'',
     ''- Website: www.iare.ac.in'',
     '''',
     ''Guidelines:'',
     ''- Be polite, accurate, and helpful'',
     ''- Answer ONLY IARE-related queries'',
     ''- For non-IARE questions, politely redirect to IARE topics'',
     ''- If unsure, suggest contacting the college directly'',
     ''- Keep responses concise and student-friendly'',
     '''',
     ''Remember: You represent IARE, maintain professionalism and helpfulness.'']"

definition corsHeaders :: "(string \<times> string) list" where
  "corsHeaders =
    [(''Access-Control-Allow-Origin'', ''*''),
     (''Access-Control-Allow-Headers'', ''authorization, x-client-info, apikey, content-type'')]"

definition GROK_URL :: string where
  "GROK_URL = ''https://api.x.ai/v1/chat/completions''"

definition GROK_MODEL :: string where
  "GROK_MODEL = ''grok-2-latest''"

definition CAMPUS_URL :: string where
  "CAMPUS_URL = ''https://ai.gateway.lovable.dev/v1/chat/completions''"

definition CAMPUS_MODEL :: string where
  "CAMPUS_MODEL = ''google/gemini-3-flash-preview''"

subsection \<open>Environment, request, collaborators, trace\<close>

text \<open>
  \<^verbatim>\<open>Deno.env.get\<close> yields a string or \<^verbatim>\<open>undefined\<close>; a key counts as configured when it is
  truthy, that is present and not the empty string.
\<close>

record env =
  GROK_API_KEY :: "string option"
  CAMPUS_ASSISTANT_API_KEY :: "string option"

fun truthy_string :: "string option \<Rightarrow> bool" where
  "truthy_string None = False"
| "truthy_string (Some s) = (s \<noteq> [])"

record request =
  http_method :: string
  authorization :: "string option"
  body_text :: string

text \<open>One entry of the \<^verbatim>\<open>messages\<close> array sent to a provider.\<close>

record message =
  role :: jsval
  content :: jsval

text \<open>
  What the outside world answers. \<^verbatim>\<open>fetch\<close> either throws (network unreachable) or yields a
  response with a status and a body text; the identity verifier (\<^verbatim>\<open>createClient\<close> followed
  by \<^verbatim>\<open>auth.getClaims\<close>) either throws or yields \<^verbatim>\<open>{ data, error }\<close>, of which the handler
  reads \<^verbatim>\<open>data?.claims\<close> and \<^verbatim>\<open>error\<close>; \<^verbatim>\<open>JSON.parse\<close> throws a SyntaxError or yields
  a value. The generation parameters of the request body are fixed and left out.
\<close>

datatype fetch_result =
    FetchThrows js_error
  | FetchResponse nat string

datatype claims_result =
    ClaimsThrows js_error
  | ClaimsReturn jsval "string option"

record world =
  json_parse :: "string \<Rightarrow> js_error + json"
  getClaims :: "string \<Rightarrow> string \<Rightarrow> claims_result"
  fetch :: "string \<Rightarrow> string \<Rightarrow> string \<Rightarrow> message list \<Rightarrow> fetch_result"

text \<open>
  The trace records each call the handler makes to the outside, in order: the state
  that is passed through every step.
\<close>

datatype call =
    GetClaims string
  | ReadBody
  | Fetch string

type_synonym trace = "call list"

text \<open>
  \<^verbatim>\<open>new Response(body, { status, headers })\<close> with a JSON body; the status defaults to
  200. \<open>json_response\<close> is the response that comes out when the constructor accepts its
  arguments.
\<close>

record http_response =
  resp_status :: nat
  resp_headers :: "(string \<times> string) list"
  resp_body :: "json option"

definition json_response :: "nat \<Rightarrow> (string \<times> jsval) list \<Rightarrow> http_response" where
  "json_response st props =
    \<lparr>resp_status = st,
     resp_headers = corsHeaders @ [(''Content-Type'', ''application/json'')],
     resp_body = Some (stringify_object props)\<rparr>"

text \<open>
  The constructor itself checks the status it is given: a status outside 200 to 599 (101
  apart) is a RangeError, and a body together with a null-body status (101, 204, 205, 304)
  is a TypeError. The handler passes a status that comes from upstream in one place only,
  the hard-failure return of the primary provider; every other response has a constant
  status (200, 400, 401, 402, 429, 500, 503), which the constructor accepts.
\<close>

definition new_response :: "nat \<Rightarrow> (string \<times> jsval) list \<Rightarrow> js_error + http_response" where
  "new_response st props =
    (if (st < 200 \<or> 599 < st) \<and> st \<noteq> 101
     then Inl (RangeError
                ''The status provided is not equal to 101 and outside the range [200, 599]'')
     else if st = 101 \<or> st = 204 \<or> st = 205 \<or> st = 304
     then Inl (TypeError ''Response with null body status cannot have body'')
     else Inr (json_response st props))"

definition preflight_response :: http_response where
  "preflight_response = \<lparr>resp_status = 200, resp_headers = corsHeaders, resp_body = None\<rparr>"

text \<open>A step of the handler throws, returns a response early, or goes on with a value.\<close>

datatype 'a outcome =
    Throw js_error
  | Return http_response
  | Next 'a

subsection \<open>The provider clients\<close>

text \<open>The object a provider client returns: \<^verbatim>\<open>{ ok, response?, status?, errorDetails? }\<close>.\<close>

record provider_result =
  ok :: bool
  response :: jsval
  status :: "nat option"
  errorDetails :: "string option"

text \<open>\<^verbatim>\<open>response.ok\<close> of a fetch response: the status is in the range 200 to 299.\<close>

definition response_ok :: "nat \<Rightarrow> bool" where
  "response_ok st = (200 \<le> st \<and> st \<le> 299)"

text \<open>\<^verbatim>\<open>data.choices?.[0]?.message?.content\<close>: only the first access can throw.\<close>

definition first_choice_content :: "json \<Rightarrow> js_error + jsval" where
  "first_choice_content data =
    (case get_member (Some data) ''choices'' of
       Inl e \<Rightarrow> Inl e
     | Inr choices \<Rightarrow> Inr (opt_member (opt_member (opt_index0 choices) ''message'') ''content''))"

text \<open>
  What both clients do once \<^verbatim>\<open>fetch\<close> has answered (lines 66 to 75, and the same text
  again at lines 96 to 105): a status that is not ok gives \<^verbatim>\<open>{ ok: false, status,
  errorDetails }\<close>, otherwise the body is parsed and the first choice's content returned
  as \<^verbatim>\<open>{ ok: true, response }\<close>.
\<close>

definition provider_outcome :: "world \<Rightarrow> fetch_result \<Rightarrow> js_error + provider_result" where
  "provider_outcome w r =
    (case r of
       FetchThrows e \<Rightarrow> Inl e
     | FetchResponse st text \<Rightarrow>
         if \<not> response_ok st
         then Inr \<lparr>ok = False, response = None, status = Some st, errorDetails = Some text\<rparr>
         else (case json_parse w text of
                 Inl e \<Rightarrow> Inl e
               | Inr data \<Rightarrow>
                   (case first_choice_content data of
                      Inl e \<Rightarrow> Inl e
                    | Inr c \<Rightarrow>
                        Inr \<lparr>ok = True, response = c, status = None, errorDetails = None\<rparr>)))"

text \<open>
  Lines 50 to 76 and 82 to 106: the clients differ in the endpoint and the model only.
  Each call is one \<^verbatim>\<open>fetch\<close>, recorded in the trace.
\<close>

definition callGrok ::
  "world \<Rightarrow> message list \<Rightarrow> string \<Rightarrow> trace \<Rightarrow> (js_error + provider_result) \<times> trace" where
  "callGrok w messages apiKey tr =
    (provider_outcome w (fetch w GROK_URL apiKey GROK_MODEL messages), tr @ [Fetch GROK_URL])"

definition callCampusAssistantAI ::
  "world \<Rightarrow> message list \<Rightarrow> string \<Rightarrow> trace \<Rightarrow> (js_error + provider_result) \<times> trace" where
  "callCampusAssistantAI w messages apiKey tr =
    (provider_outcome w (fetch w CAMPUS_URL apiKey CAMPUS_MODEL messages),
     tr @ [Fetch CAMPUS_URL])"

subsection \<open>The handler, step by step\<close>

text \<open>
  Each step takes the trace and returns its outcome with the extended trace;
  \<open>and_then\<close> runs the next step only after \<open>Next\<close>, so an early \<^verbatim>\<open>return\<close> or a
  \<^verbatim>\<open>throw\<close> skips everything after it.
\<close>

fun and_then ::
  "'a outcome \<times> trace \<Rightarrow> ('a \<Rightarrow> trace \<Rightarrow> 'b outcome \<times> trace) \<Rightarrow> 'b outcome \<times> trace" where
  "and_then (Throw err, tr) f = (Throw err, tr)"
| "and_then (Return r, tr) f = (Return r, tr)"
| "and_then (Next x, tr) f = f x tr"

text \<open>\<^verbatim>\<open>s.startsWith(p)\<close>, and \<^verbatim>\<open>s.replace(pat, rep)\<close> for a string pattern (first match only).\<close>

definition starts_with :: "string \<Rightarrow> string \<Rightarrow> bool" where
  "starts_with s p = (take (length p) s = p)"

fun replace_first :: "string \<Rightarrow> string \<Rightarrow> string \<Rightarrow> string" where
  "replace_first [] pat rep = (if pat = [] then rep else [])"
| "replace_first (c # cs) pat rep =
    (if starts_with (c # cs) pat then rep @ drop (length pat) (c # cs)
     else c # replace_first cs pat rep)"

definition unauthorized :: http_response where
  "unauthorized = json_response 401 [(''error'', Some (JStr ''Unauthorized''))]"

text \<open>Lines 115 to 124: at least one provider key.\<close>

definition check_config :: "env \<Rightarrow> trace \<Rightarrow> unit outcome \<times> trace" where
  "check_config e tr =
    (if \<not> truthy_string (GROK_API_KEY e) \<and> \<not> truthy_string (CAMPUS_ASSISTANT_API_KEY e)
     then (Return (json_response 500
             [(''error'', Some (JStr ''AI service not configured. Please contact administrator.''))]),
           tr)
     else (Next (), tr))"

text \<open>Lines 127 to 149: the bearer header, then the identity verifier.\<close>

definition check_auth :: "world \<Rightarrow> request \<Rightarrow> trace \<Rightarrow> unit outcome \<times> trace" where
  "check_auth w req tr =
    (case authorization req of
       None \<Rightarrow> (Return unauthorized, tr)
     | Some authHeader \<Rightarrow>
         if \<not> starts_with authHeader ''Bearer '' then (Return unauthorized, tr)
         else
           (let token = replace_first authHeader ''Bearer '' [] in
            case getClaims w authHeader token of
              ClaimsThrows err \<Rightarrow> (Throw err, tr @ [GetClaims token])
            | ClaimsReturn claims claimsError \<Rightarrow>
                if claimsError \<noteq> None \<or> \<not> truthy claims
                then (Return unauthorized, tr @ [GetClaims token])
                else (Next (), tr @ [GetClaims token])))"

text \<open>
  Lines 151 to 158: \<^verbatim>\<open>const { message, conversationHistory = [] } = await req.json()\<close> and
  the check of \<^verbatim>\<open>message\<close>. Destructuring \<^verbatim>\<open>null\<close> throws; the default applies to an
  absent \<^verbatim>\<open>conversationHistory\<close> only.
\<close>

definition read_message :: "world \<Rightarrow> request \<Rightarrow> trace \<Rightarrow> (jsval \<times> json) outcome \<times> trace" where
  "read_message w req tr =
    (case json_parse w (body_text req) of
       Inl err \<Rightarrow> (Throw err, tr @ [ReadBody])
     | Inr body \<Rightarrow>
         (case get_member (Some body) ''message'' of
            Inl err \<Rightarrow> (Throw err, tr @ [ReadBody])
          | Inr message \<Rightarrow>
              (case get_member (Some body) ''conversationHistory'' of
                 Inl err \<Rightarrow> (Throw err, tr @ [ReadBody])
               | Inr h \<Rightarrow>
                   (let conversationHistory = (case h of None \<Rightarrow> JArr [] | Some v \<Rightarrow> v) in
                    if \<not> truthy message \<or> js_typeof message \<noteq> ''string''
                    then (Return (json_response 400
                            [(''error'', Some (JStr ''Message is required''))]),
                          tr @ [ReadBody])
                    else (Next (message, conversationHistory), tr @ [ReadBody])))))"

text \<open>
  Lines 161 to 168: the \<^verbatim>\<open>messages\<close> array. \<^verbatim>\<open>conversationHistory.map\<close> throws when the
  value is not an array, and its callback throws on a \<^verbatim>\<open>null\<close> entry.
\<close>

fun history_entries :: "json list \<Rightarrow> js_error + message list" where
  "history_entries [] = Inr []"
| "history_entries (msg # msgs) =
    (case get_member (Some msg) ''role'' of
       Inl err \<Rightarrow> Inl err
     | Inr r \<Rightarrow>
         (case get_member (Some msg) ''content'' of
            Inl err \<Rightarrow> Inl err
          | Inr c \<Rightarrow>
              (case history_entries msgs of
                 Inl err \<Rightarrow> Inl err
               | Inr rest \<Rightarrow> Inr (\<lparr>role = r, content = c\<rparr> # rest))))"

fun map_history :: "json \<Rightarrow> js_error + message list" where
  "map_history (JArr msgs) = history_entries msgs"
| "map_history JNull = Inl (TypeError ''Cannot read properties of null: map'')"
| "map_history v = Inl (TypeError ''conversationHistory.map is not a function'')"

definition system_message :: message where
  "system_message = \<lparr>role = Some (JStr ''system''), content = Some (JStr IARE_SYSTEM_PROMPT)\<rparr>"

definition user_message :: "jsval \<Rightarrow> message" where
  "user_message m = \<lparr>role = Some (JStr ''user''), content = m\<rparr>"

definition build_messages :: "jsval \<Rightarrow> json \<Rightarrow> trace \<Rightarrow> message list outcome \<times> trace" where
  "build_messages m conversationHistory tr =
    (case map_history conversationHistory of
       Inl err \<Rightarrow> (Throw err, tr)
     | Inr entries \<Rightarrow> (Next (system_message # entries @ [user_message m]), tr))"

text \<open>
  Lines 170 to 197: the primary provider. The state carried on is the pair
  \<^verbatim>\<open>(aiResponse, usedProvider)\<close>. The hard-failure response at lines 187 to 194 is built
  with \<^verbatim>\<open>grokResult.status ?? 500\<close>, so here the constructor can throw, inside the
  \<^verbatim>\<open>try\<close> block.
\<close>

definition try_grok ::
  "env \<Rightarrow> world \<Rightarrow> message list \<Rightarrow> trace \<Rightarrow> (jsval \<times> string) outcome \<times> trace" where
  "try_grok e w messages tr =
    (case GROK_API_KEY e of
       None \<Rightarrow> (Next (None, ''none''), tr)
     | Some apiKey \<Rightarrow>
         if apiKey = [] then (Next (None, ''none''), tr)
         else
           (case callGrok w messages apiKey tr of
              (Inl err, tr') \<Rightarrow> (Throw err, tr')
            | (Inr grokResult, tr') \<Rightarrow>
                if ok grokResult \<and> truthy (response grokResult)
                then (Next (response grokResult, ''grok''), tr')
                else
                  (let shouldFallback =
                         (case status grokResult of None \<Rightarrow> 0 | Some st \<Rightarrow> st)
                           \<in> set [403, 429, 500, 502, 503]
                   in if \<not> shouldFallback
                      then
                        (case new_response
                                (case status grokResult of None \<Rightarrow> 500 | Some st \<Rightarrow> st)
                                [(''error'',
                                    Some (JStr
                                      ''AI provider error. Please check your Grok API key.'')),
                                 (''details'', map_option JStr (errorDetails grokResult)),
                                 (''status'',
                                    map_option (\<lambda>st. JNum (int st)) (status grokResult))] of
                           Inl err \<Rightarrow> (Throw err, tr')
                         | Inr r \<Rightarrow> (Return r, tr'))
                      else (Next (None, ''none''), tr'))))"

text \<open>Lines 199 to 229: the secondary provider, when there is no answer yet.\<close>

definition try_campus ::
  "env \<Rightarrow> world \<Rightarrow> message list \<Rightarrow> jsval \<times> string \<Rightarrow> trace
    \<Rightarrow> (jsval \<times> string) outcome \<times> trace" where
  "try_campus e w messages st tr =
    (case st of (aiResponse, usedProvider) \<Rightarrow>
      (case CAMPUS_ASSISTANT_API_KEY e of
         None \<Rightarrow> (Next (aiResponse, usedProvider), tr)
       | Some apiKey \<Rightarrow>
           if \<not> truthy aiResponse \<and> apiKey \<noteq> []
           then
             (case callCampusAssistantAI w messages apiKey tr of
                (Inl err, tr') \<Rightarrow> (Throw err, tr')
              | (Inr campusAssistantResult, tr') \<Rightarrow>
                  if ok campusAssistantResult \<and> truthy (response campusAssistantResult)
                  then (Next (response campusAssistantResult, ''campus-assistant-ai''), tr')
                  else if status campusAssistantResult = Some 429
                  then (Return (json_response 429
                          [(''error'',
                              Some (JStr ''Rate limit exceeded. Please try again in a moment.''))]),
                        tr')
                  else if status campusAssistantResult = Some 402
                  then (Return (json_response 402
                          [(''error'',
                              Some (JStr
                                ''AI credits exhausted. Please add credits to your workspace.''))]),
                        tr')
                  else (Return (json_response 500
                          [(''error'', Some (JStr ''AI service error. Please try again.'')),
                           (''details'', map_option JStr (errorDetails campusAssistantResult)),
                           (''status'',
                              map_option (\<lambda>st. JNum (int st)) (status campusAssistantResult))]),
                        tr'))
           else (Next (aiResponse, usedProvider), tr)))"

text \<open>Lines 231 to 243: no answer gives 503, an answer gives the success response.\<close>

definition finish :: "jsval \<times> string \<Rightarrow> trace \<Rightarrow> http_response outcome \<times> trace" where
  "finish st tr =
    (case st of (aiResponse, usedProvider) \<Rightarrow>
      if \<not> truthy aiResponse
      then (Return (json_response 503
              [(''error'', Some (JStr ''No AI provider could fulfill the request.''))]),
            tr)
      else (Return (json_response 200
              [(''response'', aiResponse), (''provider'', Some (JStr usedProvider))]),
            tr))"

text \<open>
  The \<^verbatim>\<open>try\<close> block in two halves: the checks and the assembly of the messages, then the
  providers.
\<close>

definition preconditions ::
  "env \<Rightarrow> world \<Rightarrow> request \<Rightarrow> trace \<Rightarrow> message list outcome \<times> trace" where
  "preconditions e w req tr =
    and_then (check_config e tr) (\<lambda>u tr.
    and_then (check_auth w req tr) (\<lambda>u tr.
    and_then (read_message w req tr) (\<lambda>mh tr.
    build_messages (fst mh) (snd mh) tr)))"

definition providers ::
  "env \<Rightarrow> world \<Rightarrow> message list \<Rightarrow> trace \<Rightarrow> http_response outcome \<times> trace" where
  "providers e w messages tr =
    and_then (try_grok e w messages tr) (\<lambda>st tr.
    and_then (try_campus e w messages st tr) finish)"

definition handler_try :: "env \<Rightarrow> world \<Rightarrow> request \<Rightarrow> http_response outcome \<times> trace" where
  "handler_try e w req = and_then (preconditions e w req []) (providers e w)"

text \<open>
  Lines 244 to 250: the catch-all turns anything thrown inside the \<^verbatim>\<open>try\<close> block into a
  500 that carries the error's message; a returned response passes through.
\<close>

fun catch_all :: "http_response outcome \<times> trace \<Rightarrow> http_response \<times> trace" where
  "catch_all (Throw err, tr) =
     (json_response 500 [(''error'', Some (JStr (error_message err)))], tr)"
| "catch_all (Return r, tr) = (r, tr)"
| "catch_all (Next r, tr) = (r, tr)"

text \<open>Lines 108 to 251: the preflight answer, then the \<^verbatim>\<open>try\<close> block under the catch-all.\<close>

definition serve :: "env \<Rightarrow> world \<Rightarrow> request \<Rightarrow> http_response \<times> trace" where
  "serve e w req =
    (if http_method req = ''OPTIONS'' then (preflight_response, [])
     else catch_all (handler_try e w req))"

subsection \<open>Reading a response, and sample collaborators\<close>

text \<open>A top-level field of a response's JSON body.\<close>

definition body_field :: "http_response \<Rightarrow> string \<Rightarrow> jsval" where
  "body_field r name = opt_member (resp_body r) name"

text \<open>
  A concrete deployment, request and outside world, on which the theorems below are
  instantiated: both keys set, a token the verifier accepts, a body carrying the message
  \<^verbatim>\<open>Hi\<close>, and one answer per provider endpoint.
\<close>

definition sample_env :: env where
  "sample_env = \<lparr>GROK_API_KEY = Some ''xai-key'', CAMPUS_ASSISTANT_API_KEY = Some ''gateway-key''\<rparr>"

definition sample_request :: request where
  \<open>sample_request =
    \<lparr>http_method = ''POST'', authorization = Some ''Bearer good-token'',
     body_text = ''{"message":"Hi"}''\<rparr>\<close>

definition sample_parse :: "string \<Rightarrow> js_error + json" where
  \<open>sample_parse t =
    (if t = ''{"message":"Hi"}'' then Inr (JObj [(''message'', JStr ''Hi'')])
     else if t = ''{"choices":[{"message":{"content":"Hello"}}]}''
     then Inr (JObj [(''choices'',
            JArr [JObj [(''message'', JObj [(''content'', JStr ''Hello'')])]])])
     else if t = ''{"choices":[]}'' then Inr (JObj [(''choices'', JArr [])])
     else if t = ''{"message":""}'' then Inr (JObj [(''message'', JStr [])])
     else if t = ''null'' then Inr JNull
     else Inl (SyntaxError ''Unexpected token in JSON''))\<close>

definition sample_getClaims :: "string \<Rightarrow> string \<Rightarrow> claims_result" where
  "sample_getClaims authHeader token =
    (if token = ''good-token'' then ClaimsReturn (Some (JObj [(''sub'', JStr ''user-1'')])) None
     else ClaimsReturn None (Some ''invalid JWT''))"

definition sample_world :: "fetch_result \<Rightarrow> fetch_result \<Rightarrow> world" where
  "sample_world primary secondary =
    \<lparr>json_parse = sample_parse,
     getClaims = sample_getClaims,
     fetch = (\<lambda>url apiKey model messages. if url = GROK_URL then primary else secondary)\<rparr>"

definition sample_messages :: "message list" where
  "sample_messages = [system_message, user_message (Some (JStr ''Hi''))]"

definition hello_body :: string where
  \<open>hello_body = ''{"choices":[{"message":{"content":"Hello"}}]}''\<close>

definition world_primary_401 :: world where
  "world_primary_401 =
    sample_world (FetchResponse 401 ''invalid_api_key'') (FetchResponse 200 hello_body)"

definition world_fallback_answers :: world where
  "world_fallback_answers =
    sample_world (FetchResponse 429 ''rate limited'') (FetchResponse 200 hello_body)"

definition world_primary_answers :: world where
  "world_primary_answers =
    sample_world (FetchResponse 200 hello_body) (FetchResponse 200 hello_body)"

definition world_both_fail :: "nat \<Rightarrow> world" where
  "world_both_fail st =
    sample_world (FetchResponse 503 ''unavailable'') (FetchResponse st ''upstream says no'')"

text \<open>Further deployments, requests and worlds for the instances below.\<close>

definition unconfigured_env :: env where
  "unconfigured_env = \<lparr>GROK_API_KEY = None, CAMPUS_ASSISTANT_API_KEY = None\<rparr>"

definition env_secondary_only :: env where
  "env_secondary_only = \<lparr>GROK_API_KEY = None, CAMPUS_ASSISTANT_API_KEY = Some ''gateway-key''\<rparr>"

definition env_primary_only :: env where
  "env_primary_only = \<lparr>GROK_API_KEY = Some ''xai-key'', CAMPUS_ASSISTANT_API_KEY = None\<rparr>"

definition request_without_header :: request where
  "request_without_header = sample_request\<lparr>authorization := None\<rparr>"

definition request_bad_token :: request where
  "request_bad_token = sample_request\<lparr>authorization := Some ''Bearer bad-token''\<rparr>"

definition request_empty_message :: request where
  \<open>request_empty_message = sample_request\<lparr>body_text := ''{"message":""}''\<rparr>\<close>

definition request_not_json :: request where
  "request_not_json = sample_request\<lparr>body_text := ''not json''\<rparr>"

definition request_null_body :: request where
  "request_null_body = sample_request\<lparr>body_text := ''null''\<rparr>"


definition world_primary_503 :: world where
  "world_primary_503 =
    sample_world (FetchResponse 503 ''unavailable'') (FetchResponse 200 hello_body)"


definition world_primary_no_choices :: world where
  \<open>world_primary_no_choices =
    sample_world (FetchResponse 200 ''{"choices":[]}'') (FetchResponse 200 hello_body)\<close>

definition world_primary_304 :: world where
  "world_primary_304 = sample_world (FetchResponse 304 []) (FetchResponse 200 hello_body)"

definition world_primary_600 :: world where
  "world_primary_600 =
    sample_world (FetchResponse 600 ''nonstandard'') (FetchResponse 200 hello_body)"





definition world_verifier_throws :: world where
  "world_verifier_throws =
    world_primary_answers
      \<lparr>getClaims := (\<lambda>authHeader token. ClaimsThrows (NetworkError ''auth server unreachable''))\<rparr>"

section \<open>Properties of the relay\<close>

subsection \<open>Shared facts\<close>

lemma url_distinct: "GROK_URL \<noteq> CAMPUS_URL"
  by (simp add: GROK_URL_def CAMPUS_URL_def)

lemma sample_preconditions:
  "preconditions sample_env (sample_world p s) sample_request [] =
     (Next sample_messages, [GetClaims ''good-token'', ReadBody])"
  by (simp add: preconditions_def check_config_def check_auth_def read_message_def
      build_messages_def sample_env_def sample_world_def sample_request_def sample_parse_def
      sample_getClaims_def sample_messages_def starts_with_def Let_def)

lemma preconditions_Next_trace:
  assumes "preconditions e w req [] = (Next ms, tr)"
  shows "\<exists>tok. tr = [GetClaims tok, ReadBody]"
  using assms
  by (auto simp: preconditions_def check_config_def check_auth_def read_message_def build_messages_def Let_def
      split: if_splits option.splits claims_result.splits sum.splits)

lemma serve_after_preconditions:
  assumes "http_method req \<noteq> ''OPTIONS''" and "preconditions e w req [] = (Next messages, tr0)"
  shows "serve e w req =
    catch_all (providers e w messages tr0)"
  using assms by (simp add: serve_def handler_try_def)

lemma try_grok_failure:
  assumes "GROK_API_KEY e = Some apiKey" and "apiKey \<noteq> []"
    and "fetch w GROK_URL apiKey GROK_MODEL messages = FetchResponse st text"
    and "\<not> response_ok st"
  shows "try_grok e w messages tr =
    (if st \<in> {403, 429, 500, 502, 503} then (Next (None, ''none''), tr @ [Fetch GROK_URL])
     else
       (case new_response st
               [(''error'', Some (JStr ''AI provider error. Please check your Grok API key.'')),
                (''details'', Some (JStr text)),
                (''status'', Some (JNum (int st)))] of
          Inl err \<Rightarrow> (Throw err, tr @ [Fetch GROK_URL])
        | Inr r \<Rightarrow> (Return r, tr @ [Fetch GROK_URL])))"
  using assms by (simp add: try_grok_def callGrok_def provider_outcome_def)

lemma new_response_accepted:
  assumes "300 \<le> st" and "st \<le> 599" and "st \<noteq> 304"
  shows "new_response st props = Inr (json_response st props)"
  using assms by (simp add: new_response_def)

lemma new_response_rejected:
  assumes "st < 200 \<or> 599 < st \<or> st = 304"
  shows "\<exists>err. new_response st props = Inl err"
  using assms by (auto simp: new_response_def)

lemma new_response_constant:
  assumes "st \<in> {200, 400, 401, 402, 429, 500, 503}"
  shows "new_response st props = Inr (json_response st props)"
  using assms by (auto simp: new_response_def)

subsection \<open>Primary provider: hard failure\<close>

text \<open>
  Claim C1, as the code has it. A request that passes every precondition, with a primary
  key configured, whose primary call comes back not ok with a status outside 403, 429, 500,
  502 and 503. When the status is one the Response constructor accepts with a body (300 to
  599, 304 apart), the handler answers at once with that same status, and the body carries
  the upstream text as \<^verbatim>\<open>details\<close> and the upstream status. When it is not (304, or a
  status outside 200 to 599), the constructor throws inside the \<^verbatim>\<open>try\<close> block and the
  catch-all answers 500. Either way the trace ends with the single call to the primary
  endpoint: the secondary endpoint is never fetched.
\<close>

theorem primary_hard_failure_returns_upstream_status:
  assumes "http_method req \<noteq> ''OPTIONS''"
    and "preconditions e w req [] = (Next messages, tr0)"
    and "GROK_API_KEY e = Some apiKey" and "apiKey \<noteq> []"
    and "fetch w GROK_URL apiKey GROK_MODEL messages = FetchResponse st upstream"
    and "\<not> response_ok st"
    and "st \<notin> {403, 429, 500, 502, 503}"
  shows "(200 \<le> st \<and> st \<le> 599 \<and> st \<noteq> 304 \<longrightarrow>
        resp_status (fst (serve e w req)) = st
        \<and> resp_body (fst (serve e w req)) =
            Some (JObj [(''error'', JStr ''AI provider error. Please check your Grok API key.''),
                        (''details'', JStr upstream),
                        (''status'', JNum (int st))]))
    \<and> (st < 200 \<or> 599 < st \<or> st = 304 \<longrightarrow> resp_status (fst (serve e w req)) = 500)
    \<and> snd (serve e w req) = tr0 @ [Fetch GROK_URL]
    \<and> Fetch CAMPUS_URL \<notin> set (snd (serve e w req))"
proof -
  obtain tok where tr0: "tr0 = [GetClaims tok, ReadBody]"
    using preconditions_Next_trace [OF assms(2)] by blast
  have run: "serve e w req =
      catch_all
        (case new_response st
                [(''error'', Some (JStr ''AI provider error. Please check your Grok API key.'')),
                 (''details'', Some (JStr upstream)),
                 (''status'', Some (JNum (int st)))] of
           Inl err \<Rightarrow> (Throw err, tr0 @ [Fetch GROK_URL])
         | Inr r \<Rightarrow> (Return r, tr0 @ [Fetch GROK_URL]))"
    using assms(7)
    by (simp add: serve_after_preconditions [OF assms(1,2)] providers_def
        try_grok_failure [OF assms(3-6)] split: sum.splits)
  have accepted: "resp_status (fst (serve e w req)) = st
      \<and> resp_body (fst (serve e w req)) =
          Some (JObj [(''error'', JStr ''AI provider error. Please check your Grok API key.''),
                      (''details'', JStr upstream),
                      (''status'', JNum (int st))])"
    if "200 \<le> st \<and> st \<le> 599 \<and> st \<noteq> 304"
  proof -
    from that assms(6) have "300 \<le> st" "st \<le> 599" "st \<noteq> 304"
      by (auto simp: response_ok_def)
    then show ?thesis
      by (simp add: run new_response_accepted json_response_def stringify_object_def)
  qed
  have rejected: "resp_status (fst (serve e w req)) = 500"
    if bad: "st < 200 \<or> 599 < st \<or> st = 304"
  proof -
    obtain err where "new_response st
        [(''error'', Some (JStr ''AI provider error. Please check your Grok API key.'')),
         (''details'', Some (JStr upstream)),
         (''status'', Some (JNum (int st)))] = Inl err"
      using new_response_rejected [OF bad] by blast
    then show ?thesis
      by (simp add: run json_response_def)
  qed
  have trace: "snd (serve e w req) = tr0 @ [Fetch GROK_URL]"
    by (simp add: run split: sum.splits)
  show ?thesis
    using accepted rejected trace url_distinct by (simp add: tr0)
qed

text \<open>
  Claim C1, instances: the primary answers 401 with \<^verbatim>\<open>invalid_api_key\<close>; the primary
  answers 304; the primary answers 600. The secondary would have answered each time.
\<close>

theorem primary_hard_failure_returns_upstream_status_witness:
  "resp_status (fst (serve sample_env world_primary_401 sample_request)) = 401
   \<and> body_field (fst (serve sample_env world_primary_401 sample_request)) ''details'' =
       Some (JStr ''invalid_api_key'')
   \<and> snd (serve sample_env world_primary_401 sample_request) =
       [GetClaims ''good-token'', ReadBody, Fetch GROK_URL]
   \<and> resp_status (fst (serve sample_env world_primary_304 sample_request)) = 500
   \<and> resp_status (fst (serve sample_env world_primary_600 sample_request)) = 500
   \<and> snd (serve sample_env world_primary_600 sample_request) =
       [GetClaims ''good-token'', ReadBody, Fetch GROK_URL]"
proof -
  have pre401: "preconditions sample_env world_primary_401 sample_request [] =
      (Next sample_messages, [GetClaims ''good-token'', ReadBody])"
    unfolding world_primary_401_def by (rule sample_preconditions)
  have pre304: "preconditions sample_env world_primary_304 sample_request [] =
      (Next sample_messages, [GetClaims ''good-token'', ReadBody])"
    unfolding world_primary_304_def by (rule sample_preconditions)
  have pre600: "preconditions sample_env world_primary_600 sample_request [] =
      (Next sample_messages, [GetClaims ''good-token'', ReadBody])"
    unfolding world_primary_600_def by (rule sample_preconditions)
  have f401: "fetch world_primary_401 GROK_URL ''xai-key'' GROK_MODEL sample_messages =
      FetchResponse 401 ''invalid_api_key''"
    by (simp add: world_primary_401_def sample_world_def)
  have f304: "fetch world_primary_304 GROK_URL ''xai-key'' GROK_MODEL sample_messages =
      FetchResponse 304 []"
    by (simp add: world_primary_304_def sample_world_def)
  have f600: "fetch world_primary_600 GROK_URL ''xai-key'' GROK_MODEL sample_messages =
      FetchResponse 600 ''nonstandard''"
    by (simp add: world_primary_600_def sample_world_def)
  have k: "GROK_API_KEY sample_env = Some ''xai-key''"
    by (simp add: sample_env_def)
  have m: "http_method sample_request \<noteq> ''OPTIONS''"
    by (simp add: sample_request_def)
  show ?thesis
    using
      primary_hard_failure_returns_upstream_status [OF m pre401 k _ f401]
      primary_hard_failure_returns_upstream_status [OF m pre304 k _ f304]
      primary_hard_failure_returns_upstream_status [OF m pre600 k _ f600]
    by (simp add: response_ok_def body_field_def)
qed

text \<open>
  Claim C1 as worded asks for the upstream status whenever it is not ok and not retryable.
  A primary that answers 304 is such a case: the constructor refuses 304 with a body, and
  the handler answers 500.
\<close>

theorem primary_status_304_counterexample:
  "fetch world_primary_304 GROK_URL ''xai-key'' GROK_MODEL sample_messages = FetchResponse 304 []
   \<and> \<not> response_ok 304
   \<and> (304::nat) \<notin> {403, 429, 500, 502, 503}
   \<and> resp_status (fst (serve sample_env world_primary_304 sample_request)) = 500
   \<and> resp_status (fst (serve sample_env world_primary_304 sample_request)) \<noteq> 304"
proof -
  have m: "http_method sample_request \<noteq> ''OPTIONS''"
    by (simp add: sample_request_def)
  have f: "fetch world_primary_304 GROK_URL ''xai-key'' GROK_MODEL sample_messages =
      FetchResponse 304 []"
    by (simp add: world_primary_304_def sample_world_def)
  have "serve sample_env world_primary_304 sample_request =
      catch_all (providers sample_env world_primary_304 sample_messages
                   [GetClaims ''good-token'', ReadBody])"
    unfolding world_primary_304_def
    by (rule serve_after_preconditions [OF m sample_preconditions])
  then have "resp_status (fst (serve sample_env world_primary_304 sample_request)) = 500"
    by (simp add: providers_def try_grok_def callGrok_def provider_outcome_def f
        response_ok_def new_response_def json_response_def sample_env_def)
  then show ?thesis
    using f by (simp add: response_ok_def)
qed

subsection \<open>Shared facts about the two provider steps\<close>

lemma try_grok_unconfigured:
  assumes "\<not> truthy_string (GROK_API_KEY e)"
  shows "try_grok e w messages tr = (Next (None, ''none''), tr)"
  using assms by (cases "GROK_API_KEY e") (simp_all add: try_grok_def)

lemma try_grok_answer:
  assumes "GROK_API_KEY e = Some apiKey" and "apiKey \<noteq> []"
    and "fetch w GROK_URL apiKey GROK_MODEL messages = FetchResponse st text"
    and "response_ok st"
    and "json_parse w text = Inr data"
    and "first_choice_content data = Inr c"
  shows "try_grok e w messages tr =
    (if truthy c then (Next (c, ''grok''), tr @ [Fetch GROK_URL])
     else (Return (json_response 500
             [(''error'', Some (JStr ''AI provider error. Please check your Grok API key.'')),
              (''details'', None),
              (''status'', None)]), tr @ [Fetch GROK_URL]))"
  using assms by (simp add: try_grok_def callGrok_def provider_outcome_def new_response_def)

lemma try_grok_throws:
  assumes "GROK_API_KEY e = Some apiKey" and "apiKey \<noteq> []"
    and "fetch w GROK_URL apiKey GROK_MODEL messages = FetchThrows err"
  shows "try_grok e w messages tr = (Throw err, tr @ [Fetch GROK_URL])"
  using assms by (simp add: try_grok_def callGrok_def provider_outcome_def)

lemma try_grok_trace:
  assumes "try_grok e w messages tr = (x, tr1)"
  shows "tr1 = tr \<or> tr1 = tr @ [Fetch GROK_URL]"
  using assms
  by (auto simp: try_grok_def callGrok_def Let_def split: option.splits if_splits sum.splits)

lemma try_campus_skipped:
  assumes "truthy aiResponse \<or> \<not> truthy_string (CAMPUS_ASSISTANT_API_KEY e)"
  shows "try_campus e w messages (aiResponse, usedProvider) tr = (Next (aiResponse, usedProvider), tr)"
  using assms by (cases "CAMPUS_ASSISTANT_API_KEY e") (auto simp: try_campus_def)

lemma try_campus_failure:
  assumes "CAMPUS_ASSISTANT_API_KEY e = Some apiKey" and "apiKey \<noteq> []"
    and "\<not> truthy aiResponse"
    and "fetch w CAMPUS_URL apiKey CAMPUS_MODEL messages = FetchResponse st text"
    and "\<not> response_ok st"
  shows "try_campus e w messages (aiResponse, usedProvider) tr =
    (Return
      (if st = 429
       then json_response 429
              [(''error'', Some (JStr ''Rate limit exceeded. Please try again in a moment.''))]
       else if st = 402
       then json_response 402
              [(''error'',
                  Some (JStr ''AI credits exhausted. Please add credits to your workspace.''))]
       else json_response 500
              [(''error'', Some (JStr ''AI service error. Please try again.'')),
               (''details'', Some (JStr text)),
               (''status'', Some (JNum (int st)))]),
     tr @ [Fetch CAMPUS_URL])"
  using assms by (simp add: try_campus_def callCampusAssistantAI_def provider_outcome_def)

lemma try_campus_answer:
  assumes "CAMPUS_ASSISTANT_API_KEY e = Some apiKey" and "apiKey \<noteq> []"
    and "\<not> truthy aiResponse"
    and "fetch w CAMPUS_URL apiKey CAMPUS_MODEL messages = FetchResponse st text"
    and "response_ok st"
    and "json_parse w text = Inr data"
    and "first_choice_content data = Inr c"
  shows "try_campus e w messages (aiResponse, usedProvider) tr =
    (if truthy c then (Next (c, ''campus-assistant-ai''), tr @ [Fetch CAMPUS_URL])
     else (Return (json_response 500
             [(''error'', Some (JStr ''AI service error. Please try again.'')),
              (''details'', None),
              (''status'', None)]), tr @ [Fetch CAMPUS_URL]))"
  using assms by (simp add: try_campus_def callCampusAssistantAI_def provider_outcome_def)

lemma retryable_not_ok:
  assumes "st \<in> {403, 429, 500, 502, 503}"
  shows "\<not> response_ok st"
  using assms by (auto simp: response_ok_def)

lemma sample_fetch_grok: "fetch (sample_world p s) GROK_URL k m ms = p"
  by (simp add: sample_world_def)

lemma sample_fetch_campus: "fetch (sample_world p s) CAMPUS_URL k m ms = s"
  using url_distinct by (simp add: sample_world_def)

lemma sample_json_parse: "json_parse (sample_world p s) = sample_parse"
  by (simp add: sample_world_def)

lemma sample_parse_hello:
  "sample_parse hello_body =
     Inr (JObj [(''choices'', JArr [JObj [(''message'', JObj [(''content'', JStr ''Hello'')])]])])"
  by (simp add: sample_parse_def hello_body_def)

lemma hello_content:
  "first_choice_content
     (JObj [(''choices'', JArr [JObj [(''message'', JObj [(''content'', JStr ''Hello'')])]])]) =
   Inr (Some (JStr ''Hello''))"
  by (simp add: first_choice_content_def)

lemma sample_method: "http_method sample_request \<noteq> ''OPTIONS''"
  by (simp add: sample_request_def)

lemma sample_grok_key: "GROK_API_KEY sample_env = Some ''xai-key''"
  by (simp add: sample_env_def)

lemma sample_campus_key: "CAMPUS_ASSISTANT_API_KEY sample_env = Some ''gateway-key''"
  by (simp add: sample_env_def)

lemma sample_serve:
  "serve sample_env (sample_world p s) sample_request =
    catch_all (providers sample_env (sample_world p s) sample_messages
                 [GetClaims ''good-token'', ReadBody])"
  by (rule serve_after_preconditions [OF sample_method sample_preconditions])

lemma sample_try_grok_503:
  "try_grok sample_env (world_both_fail st) sample_messages [GetClaims ''good-token'', ReadBody] =
     (Next (None, ''none''), [GetClaims ''good-token'', ReadBody, Fetch GROK_URL])"
  by (simp add: try_grok_def callGrok_def provider_outcome_def world_both_fail_def
      sample_fetch_grok response_ok_def sample_grok_key)

subsection \<open>Fallback to the secondary provider\<close>

text \<open>
  Claim C2, as the code has it. A request that passes every precondition, whose primary
  call fails with one of the statuses 403, 429, 500, 502, 503, with a secondary key
  configured and a secondary answer whose first choice carries a non-empty text: the
  handler answers 200, the body carries that text as \<^verbatim>\<open>response\<close>, and the
  \<^verbatim>\<open>provider\<close> field is the identifier the code gives the secondary provider,
  \<^verbatim>\<open>campus-assistant-ai\<close>. Both endpoints are fetched once, the primary first.
\<close>

theorem fallback_success_returns_secondary_answer:
  assumes "http_method req \<noteq> ''OPTIONS''"
    and "preconditions e w req [] = (Next messages, tr0)"
    and "GROK_API_KEY e = Some grokKey" and "grokKey \<noteq> []"
    and "fetch w GROK_URL grokKey GROK_MODEL messages = FetchResponse st1 text1"
    and "st1 \<in> {403, 429, 500, 502, 503}"
    and "CAMPUS_ASSISTANT_API_KEY e = Some campusKey" and "campusKey \<noteq> []"
    and "fetch w CAMPUS_URL campusKey CAMPUS_MODEL messages = FetchResponse st2 text2"
    and "response_ok st2"
    and "json_parse w text2 = Inr data"
    and "first_choice_content data = Inr (Some (JStr t))"
    and "t \<noteq> []"
  shows "resp_status (fst (serve e w req)) = 200
    \<and> resp_body (fst (serve e w req)) =
        Some (JObj [(''response'', JStr t), (''provider'', JStr ''campus-assistant-ai'')])
    \<and> snd (serve e w req) = tr0 @ [Fetch GROK_URL, Fetch CAMPUS_URL]"
proof -
  have grok: "try_grok e w messages tr0 = (Next (None, ''none''), tr0 @ [Fetch GROK_URL])"
    using assms(6) by (simp add: try_grok_failure [OF assms(3-5) retryable_not_ok [OF assms(6)]])
  have campus: "try_campus e w messages (None, ''none'') (tr0 @ [Fetch GROK_URL]) =
      (Next (Some (JStr t), ''campus-assistant-ai''), tr0 @ [Fetch GROK_URL, Fetch CAMPUS_URL])"
    using assms(13) by (simp add: try_campus_answer [OF assms(7,8) _ assms(9-12)])
  have "providers e w messages tr0 =
      (Return (json_response 200
         [(''response'', Some (JStr t)), (''provider'', Some (JStr ''campus-assistant-ai''))]),
       tr0 @ [Fetch GROK_URL, Fetch CAMPUS_URL])"
    using assms(13) by (simp add: providers_def grok campus finish_def)
  then show ?thesis
    by (simp add: serve_after_preconditions [OF assms(1,2)] json_response_def stringify_object_def)
qed

text \<open>
  Claim C2, instance: the primary answers 429 and the secondary answers \<^verbatim>\<open>Hello\<close>.
\<close>

theorem fallback_success_returns_secondary_answer_witness:
  "resp_status (fst (serve sample_env world_fallback_answers sample_request)) = 200
   \<and> resp_body (fst (serve sample_env world_fallback_answers sample_request)) =
       Some (JObj [(''response'', JStr ''Hello''), (''provider'', JStr ''campus-assistant-ai'')])
   \<and> snd (serve sample_env world_fallback_answers sample_request) =
       [GetClaims ''good-token'', ReadBody, Fetch GROK_URL, Fetch CAMPUS_URL]"
  using fallback_success_returns_secondary_answer
    [of sample_request sample_env world_fallback_answers sample_messages
        "[GetClaims ''good-token'', ReadBody]" "''xai-key''" 429 "''rate limited''"
        "''gateway-key''" 200 hello_body
        "JObj [(''choices'', JArr [JObj [(''message'', JObj [(''content'', JStr ''Hello'')])]])]"
        "''Hello''"]
    sample_preconditions [of "FetchResponse 429 ''rate limited''" "FetchResponse 200 hello_body"]
  by (simp add: world_fallback_answers_def sample_fetch_grok sample_fetch_campus
      sample_json_parse sample_parse_hello hello_content response_ok_def sample_grok_key
      sample_campus_key sample_method)

text \<open>
  Claim C2 as worded asks for the \<^verbatim>\<open>provider\<close> field to be the string
  \<^verbatim>\<open>secondary\<close>. On the spec's own example (primary 429, secondary \<^verbatim>\<open>Hello\<close>) the
  response is 200 with the text, but the field is not that string.
\<close>

theorem fallback_provider_field_counterexample:
  "fetch world_fallback_answers GROK_URL ''xai-key'' GROK_MODEL sample_messages =
     FetchResponse 429 ''rate limited''
   \<and> resp_status (fst (serve sample_env world_fallback_answers sample_request)) = 200
   \<and> body_field (fst (serve sample_env world_fallback_answers sample_request)) ''response'' =
       Some (JStr ''Hello'')
   \<and> body_field (fst (serve sample_env world_fallback_answers sample_request)) ''provider'' \<noteq>
       Some (JStr ''secondary'')"
proof -
  have "serve sample_env world_fallback_answers sample_request =
      (json_response 200
         [(''response'', Some (JStr ''Hello'')),
          (''provider'', Some (JStr ''campus-assistant-ai''))],
       [GetClaims ''good-token'', ReadBody, Fetch GROK_URL, Fetch CAMPUS_URL])"
    unfolding world_fallback_answers_def
    by (simp add: sample_serve providers_def
        try_grok_def try_campus_def callGrok_def callCampusAssistantAI_def provider_outcome_def
        finish_def sample_fetch_grok sample_fetch_campus sample_json_parse sample_parse_hello
        hello_content response_ok_def sample_grok_key sample_campus_key)
  then show ?thesis
    by (simp add: body_field_def json_response_def stringify_object_def
        world_fallback_answers_def sample_fetch_grok)
qed

subsection \<open>Primary provider: success\<close>

text \<open>
  Claim C3, as the code has it. A request that passes every precondition, with a primary
  key configured and a primary answer whose first choice carries a non-empty text: the
  handler answers 200 with that text, the \<^verbatim>\<open>provider\<close> field is the identifier the
  code gives the primary provider, \<^verbatim>\<open>grok\<close>, and the secondary endpoint is fetched zero
  times.
\<close>

theorem primary_success_returns_primary_answer:
  assumes "http_method req \<noteq> ''OPTIONS''"
    and "preconditions e w req [] = (Next messages, tr0)"
    and "GROK_API_KEY e = Some grokKey" and "grokKey \<noteq> []"
    and "fetch w GROK_URL grokKey GROK_MODEL messages = FetchResponse st text"
    and "response_ok st"
    and "json_parse w text = Inr data"
    and "first_choice_content data = Inr (Some (JStr t))"
    and "t \<noteq> []"
  shows "resp_status (fst (serve e w req)) = 200
    \<and> resp_body (fst (serve e w req)) =
        Some (JObj [(''response'', JStr t), (''provider'', JStr ''grok'')])
    \<and> snd (serve e w req) = tr0 @ [Fetch GROK_URL]
    \<and> length (filter (\<lambda>c. c = Fetch CAMPUS_URL) (snd (serve e w req))) = 0"
proof -
  obtain tok where tr0: "tr0 = [GetClaims tok, ReadBody]"
    using preconditions_Next_trace [OF assms(2)] by blast
  have grok: "try_grok e w messages tr0 = (Next (Some (JStr t), ''grok''), tr0 @ [Fetch GROK_URL])"
    using assms(9) by (simp add: try_grok_answer [OF assms(3-8)])
  have campus: "try_campus e w messages (Some (JStr t), ''grok'') (tr0 @ [Fetch GROK_URL]) =
      (Next (Some (JStr t), ''grok''), tr0 @ [Fetch GROK_URL])"
    using assms(9) by (simp add: try_campus_skipped)
  have "providers e w messages tr0 =
      (Return (json_response 200
         [(''response'', Some (JStr t)), (''provider'', Some (JStr ''grok''))]),
       tr0 @ [Fetch GROK_URL])"
    using assms(9) by (simp add: providers_def grok campus finish_def)
  then show ?thesis
    using url_distinct
    by (simp add: serve_after_preconditions [OF assms(1,2)] json_response_def
        stringify_object_def tr0)
qed

text \<open>
  Claim C3, instance: the primary answers \<^verbatim>\<open>Hello\<close>, and the secondary would too.
\<close>

theorem primary_success_returns_primary_answer_witness:
  "resp_status (fst (serve sample_env world_primary_answers sample_request)) = 200
   \<and> resp_body (fst (serve sample_env world_primary_answers sample_request)) =
       Some (JObj [(''response'', JStr ''Hello''), (''provider'', JStr ''grok'')])
   \<and> snd (serve sample_env world_primary_answers sample_request) =
       [GetClaims ''good-token'', ReadBody, Fetch GROK_URL]"
  using primary_success_returns_primary_answer
    [of sample_request sample_env world_primary_answers sample_messages
        "[GetClaims ''good-token'', ReadBody]" "''xai-key''" 200 hello_body
        "JObj [(''choices'', JArr [JObj [(''message'', JObj [(''content'', JStr ''Hello'')])]])]"
        "''Hello''"]
    sample_preconditions [of "FetchResponse 200 hello_body" "FetchResponse 200 hello_body"]
  by (simp add: world_primary_answers_def sample_fetch_grok
      sample_json_parse sample_parse_hello hello_content response_ok_def sample_grok_key
      sample_campus_key sample_method)

text \<open>
  Claim C3 as worded asks for the \<^verbatim>\<open>provider\<close> field to be the string
  \<^verbatim>\<open>primary\<close>. When the primary answers \<^verbatim>\<open>Hello\<close> the response is 200 with the text,
  but the field is not that string.
\<close>

theorem primary_provider_field_counterexample:
  "fetch world_primary_answers GROK_URL ''xai-key'' GROK_MODEL sample_messages =
     FetchResponse 200 hello_body
   \<and> resp_status (fst (serve sample_env world_primary_answers sample_request)) = 200
   \<and> body_field (fst (serve sample_env world_primary_answers sample_request)) ''response'' =
       Some (JStr ''Hello'')
   \<and> body_field (fst (serve sample_env world_primary_answers sample_request)) ''provider'' \<noteq>
       Some (JStr ''primary'')"
proof -
  have "serve sample_env world_primary_answers sample_request =
      (json_response 200
         [(''response'', Some (JStr ''Hello'')), (''provider'', Some (JStr ''grok''))],
       [GetClaims ''good-token'', ReadBody, Fetch GROK_URL])"
    unfolding world_primary_answers_def
    by (simp add: sample_serve providers_def
        try_grok_def try_campus_def callGrok_def provider_outcome_def
        finish_def sample_fetch_grok sample_json_parse sample_parse_hello
        hello_content response_ok_def sample_grok_key sample_campus_key)
  then show ?thesis
    by (simp add: body_field_def json_response_def stringify_object_def
        world_primary_answers_def sample_fetch_grok)
qed

subsection \<open>Secondary provider: failure\<close>

text \<open>
  Claim C4. Whenever the secondary provider is attempted (the primary step went on without
  an answer and a secondary key is configured) and its call comes back not ok: status 429
  gives 429 with the rate-limit message, status 402 gives 402 with the credits message,
  every other status gives the 500 error response that carries the upstream text and
  status. The secondary endpoint is fetched exactly once: nothing is retried.
\<close>

theorem secondary_failure_mapping:
  assumes "http_method req \<noteq> ''OPTIONS''"
    and "preconditions e w req [] = (Next messages, tr0)"
    and "try_grok e w messages tr0 = (Next (aiResponse, usedProvider), tr1)"
    and "\<not> truthy aiResponse"
    and "CAMPUS_ASSISTANT_API_KEY e = Some campusKey" and "campusKey \<noteq> []"
    and "fetch w CAMPUS_URL campusKey CAMPUS_MODEL messages = FetchResponse st text"
    and "\<not> response_ok st"
  shows "resp_status (fst (serve e w req)) = (if st = 429 then 429 else if st = 402 then 402 else 500)
    \<and> fst (serve e w req) =
      (if st = 429
       then json_response 429
              [(''error'', Some (JStr ''Rate limit exceeded. Please try again in a moment.''))]
       else if st = 402
       then json_response 402
              [(''error'',
                  Some (JStr ''AI credits exhausted. Please add credits to your workspace.''))]
       else json_response 500
              [(''error'', Some (JStr ''AI service error. Please try again.'')),
               (''details'', Some (JStr text)),
               (''status'', Some (JNum (int st)))])
    \<and> snd (serve e w req) = tr1 @ [Fetch CAMPUS_URL]
    \<and> length (filter (\<lambda>c. c = Fetch CAMPUS_URL) (snd (serve e w req))) = 1"
proof -
  obtain tok where tr0: "tr0 = [GetClaims tok, ReadBody]"
    using preconditions_Next_trace [OF assms(2)] by blast
  have tr1: "tr1 = tr0 \<or> tr1 = tr0 @ [Fetch GROK_URL]"
    using try_grok_trace [OF assms(3)] .
  have "providers e w messages tr0 =
      (Return
        (if st = 429
         then json_response 429
                [(''error'', Some (JStr ''Rate limit exceeded. Please try again in a moment.''))]
         else if st = 402
         then json_response 402
                [(''error'',
                    Some (JStr ''AI credits exhausted. Please add credits to your workspace.''))]
         else json_response 500
                [(''error'', Some (JStr ''AI service error. Please try again.'')),
                 (''details'', Some (JStr text)),
                 (''status'', Some (JNum (int st)))]),
       tr1 @ [Fetch CAMPUS_URL])"
    by (simp add: providers_def assms(3) try_campus_failure [OF assms(5,6,4,7,8)])
  then have "serve e w req =
      (if st = 429
         then json_response 429
                [(''error'', Some (JStr ''Rate limit exceeded. Please try again in a moment.''))]
         else if st = 402
         then json_response 402
                [(''error'',
                    Some (JStr ''AI credits exhausted. Please add credits to your workspace.''))]
         else json_response 500
                [(''error'', Some (JStr ''AI service error. Please try again.'')),
                 (''details'', Some (JStr text)),
                 (''status'', Some (JNum (int st)))],
       tr1 @ [Fetch CAMPUS_URL])"
    by (simp add: serve_after_preconditions [OF assms(1,2)])
  then show ?thesis
    using tr1 url_distinct by (auto simp: tr0 json_response_def)
qed

text \<open>
  Claim C4, instances: the primary answers 503 and the secondary 429, 402 and 404.
\<close>

theorem secondary_failure_mapping_witness:
  "resp_status (fst (serve sample_env (world_both_fail 429) sample_request)) = 429
   \<and> resp_status (fst (serve sample_env (world_both_fail 402) sample_request)) = 402
   \<and> resp_status (fst (serve sample_env (world_both_fail 404) sample_request)) = 500
   \<and> body_field (fst (serve sample_env (world_both_fail 404) sample_request)) ''details'' =
       Some (JStr ''upstream says no'')
   \<and> snd (serve sample_env (world_both_fail 429) sample_request) =
       [GetClaims ''good-token'', ReadBody, Fetch GROK_URL, Fetch CAMPUS_URL]"
  using
    secondary_failure_mapping
      [of sample_request sample_env "world_both_fail 429" sample_messages
          "[GetClaims ''good-token'', ReadBody]" None "''none''"
          "[GetClaims ''good-token'', ReadBody, Fetch GROK_URL]" "''gateway-key''" 429
          "''upstream says no''"]
    secondary_failure_mapping
      [of sample_request sample_env "world_both_fail 402" sample_messages
          "[GetClaims ''good-token'', ReadBody]" None "''none''"
          "[GetClaims ''good-token'', ReadBody, Fetch GROK_URL]" "''gateway-key''" 402
          "''upstream says no''"]
    secondary_failure_mapping
      [of sample_request sample_env "world_both_fail 404" sample_messages
          "[GetClaims ''good-token'', ReadBody]" None "''none''"
          "[GetClaims ''good-token'', ReadBody, Fetch GROK_URL]" "''gateway-key''" 404
          "''upstream says no''"]
    sample_preconditions [of "FetchResponse 503 ''unavailable''"]
    sample_try_grok_503
  by (simp add: world_both_fail_def sample_fetch_campus response_ok_def sample_campus_key
      sample_method json_response_def stringify_object_def body_field_def)

subsection \<open>Shared facts about the checks\<close>

lemma get_member_not_null:
  assumes "body \<noteq> JNull"
  shows "get_member (Some body) name = Inr (opt_member (Some body) name)"
  using assms by (cases body) simp_all

lemma message_check:
  "(\<not> truthy m \<or> js_typeof m \<noteq> ''string'') = (\<not> (\<exists>s. m = Some (JStr s) \<and> s \<noteq> []))"
proof (cases m)
  case None
  then show ?thesis by simp
next
  case (Some v)
  then show ?thesis by (cases v) simp_all
qed

lemma serve_unconfigured:
  assumes "http_method req \<noteq> ''OPTIONS''"
    and "\<not> truthy_string (GROK_API_KEY e)" and "\<not> truthy_string (CAMPUS_ASSISTANT_API_KEY e)"
  shows "serve e w req =
    (json_response 500
       [(''error'', Some (JStr ''AI service not configured. Please contact administrator.''))],
     [])"
  using assms by (simp add: serve_def handler_try_def preconditions_def check_config_def)

lemma serve_no_bearer:
  assumes "http_method req \<noteq> ''OPTIONS''"
    and "truthy_string (GROK_API_KEY e) \<or> truthy_string (CAMPUS_ASSISTANT_API_KEY e)"
    and "\<not> (\<exists>h. authorization req = Some h \<and> starts_with h ''Bearer '')"
  shows "serve e w req = (json_response 401 [(''error'', Some (JStr ''Unauthorized''))], [])"
  using assms
  by (cases "authorization req")
    (auto simp: serve_def handler_try_def preconditions_def check_config_def check_auth_def
      unauthorized_def)

lemma serve_claims_rejected:
  assumes "http_method req \<noteq> ''OPTIONS''"
    and "truthy_string (GROK_API_KEY e) \<or> truthy_string (CAMPUS_ASSISTANT_API_KEY e)"
    and "authorization req = Some h" and "starts_with h ''Bearer ''"
    and "getClaims w h (replace_first h ''Bearer '' []) = ClaimsReturn claims claimsError"
    and "claimsError \<noteq> None \<or> \<not> truthy claims"
  shows "serve e w req =
    (json_response 401 [(''error'', Some (JStr ''Unauthorized''))],
     [GetClaims (replace_first h ''Bearer '' [])])"
  using assms
  by (auto simp: serve_def handler_try_def preconditions_def check_config_def check_auth_def
      unauthorized_def)

lemma authenticated_steps:
  assumes "truthy_string (GROK_API_KEY e) \<or> truthy_string (CAMPUS_ASSISTANT_API_KEY e)"
    and "authorization req = Some h" and "starts_with h ''Bearer ''"
    and "getClaims w h (replace_first h ''Bearer '' []) = ClaimsReturn claims None"
    and "truthy claims"
  shows "preconditions e w req [] =
    and_then (read_message w req [GetClaims (replace_first h ''Bearer '' [])])
      (\<lambda>mh tr. build_messages (fst mh) (snd mh) tr)"
  using assms by (auto simp: preconditions_def check_config_def check_auth_def)

lemma preconditions_pass:
  assumes "truthy_string (GROK_API_KEY e) \<or> truthy_string (CAMPUS_ASSISTANT_API_KEY e)"
    and "authorization req = Some h" and "starts_with h ''Bearer ''"
    and "getClaims w h (replace_first h ''Bearer '' []) = ClaimsReturn claims None"
    and "truthy claims"
    and "json_parse w (body_text req) = Inr body" and "body \<noteq> JNull"
    and "opt_member (Some body) ''message'' = Some (JStr s)" and "s \<noteq> []"
    and "map_history
           (case opt_member (Some body) ''conversationHistory'' of
              None \<Rightarrow> JArr [] | Some v \<Rightarrow> v) = Inr entries"
  shows "preconditions e w req [] =
    (Next (system_message # entries @ [user_message (Some (JStr s))]),
     [GetClaims (replace_first h ''Bearer '' []), ReadBody])"
proof -
  have "read_message w req [GetClaims (replace_first h ''Bearer '' [])] =
      (Next (Some (JStr s),
             (case opt_member (Some body) ''conversationHistory'' of
                None \<Rightarrow> JArr [] | Some v \<Rightarrow> v)),
       [GetClaims (replace_first h ''Bearer '' []), ReadBody])"
    using assms(6,8,9) by (simp add: read_message_def get_member_not_null [OF assms(7)])
  then show ?thesis
    using assms(10) by (simp add: authenticated_steps [OF assms(1-5)] build_messages_def)
qed

lemma serve_message_rejected:
  assumes "http_method req \<noteq> ''OPTIONS''"
    and "truthy_string (GROK_API_KEY e) \<or> truthy_string (CAMPUS_ASSISTANT_API_KEY e)"
    and "authorization req = Some h" and "starts_with h ''Bearer ''"
    and "getClaims w h (replace_first h ''Bearer '' []) = ClaimsReturn claims None"
    and "truthy claims"
    and "json_parse w (body_text req) = Inr body" and "body \<noteq> JNull"
    and "\<not> (\<exists>s. opt_member (Some body) ''message'' = Some (JStr s) \<and> s \<noteq> [])"
  shows "serve e w req =
    (json_response 400 [(''error'', Some (JStr ''Message is required''))],
     [GetClaims (replace_first h ''Bearer '' []), ReadBody])"
proof -
  have "\<not> truthy (opt_member (Some body) ''message'')
      \<or> js_typeof (opt_member (Some body) ''message'') \<noteq> ''string''"
    using assms(9) message_check [of "opt_member (Some body) ''message''"] by blast
  then have "read_message w req [GetClaims (replace_first h ''Bearer '' [])] =
      (Return (json_response 400 [(''error'', Some (JStr ''Message is required''))]),
       [GetClaims (replace_first h ''Bearer '' []), ReadBody])"
    using assms(7) by (auto simp: read_message_def get_member_not_null [OF assms(8)])
  then show ?thesis
    using assms(1) by (simp add: serve_def handler_try_def authenticated_steps [OF assms(2-6)])
qed

lemma serve_body_throws:
  assumes "http_method req \<noteq> ''OPTIONS''"
    and "truthy_string (GROK_API_KEY e) \<or> truthy_string (CAMPUS_ASSISTANT_API_KEY e)"
    and "authorization req = Some h" and "starts_with h ''Bearer ''"
    and "getClaims w h (replace_first h ''Bearer '' []) = ClaimsReturn claims None"
    and "truthy claims"
    and "json_parse w (body_text req) = Inl err"
  shows "serve e w req =
    (json_response 500 [(''error'', Some (JStr (error_message err)))],
     [GetClaims (replace_first h ''Bearer '' []), ReadBody])"
proof -
  have "read_message w req [GetClaims (replace_first h ''Bearer '' [])] =
      (Throw err, [GetClaims (replace_first h ''Bearer '' []), ReadBody])"
    using assms(7) by (simp add: read_message_def)
  then show ?thesis
    using assms(1) by (simp add: serve_def handler_try_def authenticated_steps [OF assms(2-6)])
qed

lemma serve_claims_throws:
  assumes "http_method req \<noteq> ''OPTIONS''"
    and "truthy_string (GROK_API_KEY e) \<or> truthy_string (CAMPUS_ASSISTANT_API_KEY e)"
    and "authorization req = Some h" and "starts_with h ''Bearer ''"
    and "getClaims w h (replace_first h ''Bearer '' []) = ClaimsThrows err"
  shows "serve e w req =
    (json_response 500 [(''error'', Some (JStr (error_message err)))],
     [GetClaims (replace_first h ''Bearer '' [])])"
  using assms
  by (auto simp: serve_def handler_try_def preconditions_def check_config_def check_auth_def)

lemma serve_body_null:
  assumes "http_method req \<noteq> ''OPTIONS''"
    and "truthy_string (GROK_API_KEY e) \<or> truthy_string (CAMPUS_ASSISTANT_API_KEY e)"
    and "authorization req = Some h" and "starts_with h ''Bearer ''"
    and "getClaims w h (replace_first h ''Bearer '' []) = ClaimsReturn claims None"
    and "truthy claims"
    and "json_parse w (body_text req) = Inr JNull"
  shows "resp_status (fst (serve e w req)) = 500
    \<and> snd (serve e w req) = [GetClaims (replace_first h ''Bearer '' []), ReadBody]"
proof -
  have "read_message w req [GetClaims (replace_first h ''Bearer '' [])] =
      (Throw (TypeError ''Cannot read properties of null: message''),
       [GetClaims (replace_first h ''Bearer '' []), ReadBody])"
    using assms(7) by (simp add: read_message_def)
  then show ?thesis
    using assms(1)
    by (simp add: serve_def handler_try_def authenticated_steps [OF assms(2-6)]
        json_response_def)
qed

lemma sample_token: "replace_first ''Bearer good-token'' ''Bearer '' [] = ''good-token''"
  by (simp add: starts_with_def)

lemma sample_bad_token: "replace_first ''Bearer bad-token'' ''Bearer '' [] = ''bad-token''"
  by (simp add: starts_with_def)

subsection \<open>The order of the checks\<close>

text \<open>
  Claim C5, as the code has it. For a request that is not a preflight, the checks run in a
  fixed order and the first one that fails answers. (1) No provider key at all gives 500
  \<^verbatim>\<open>AI service not configured\<close> with an empty trace, so before the verifier is asked and
  before the body is read. (2) A missing bearer header gives 401, again with an empty
  trace. (3) A verifier that reports an error or no claims gives 401 after the one
  verifier call; a verifier that throws gives the catch-all's 500. (4) A body that parses
  to a value other than \<^verbatim>\<open>null\<close> and whose \<^verbatim>\<open>message\<close> is not a non-empty string gives
  400 after the body is read; a body that does not parse, or is \<^verbatim>\<open>null\<close>, gives the
  catch-all's 500. Every answer is stated by its status, its body and its trace, and no
  trace holds a provider fetch.
\<close>

theorem preconditions_checked_in_order:
  assumes "http_method req \<noteq> ''OPTIONS''"
  shows
    "(\<not> truthy_string (GROK_API_KEY e) \<and> \<not> truthy_string (CAMPUS_ASSISTANT_API_KEY e) \<longrightarrow>
        resp_status (fst (serve e w req)) = 500
        \<and> resp_body (fst (serve e w req)) = Some (JObj [(''error'', JStr
            ''AI service not configured. Please contact administrator.'')])
        \<and> snd (serve e w req) = [])
   \<and> ((truthy_string (GROK_API_KEY e) \<or> truthy_string (CAMPUS_ASSISTANT_API_KEY e))
        \<and> \<not> (\<exists>h. authorization req = Some h \<and> starts_with h ''Bearer '') \<longrightarrow>
        resp_status (fst (serve e w req)) = 401
        \<and> resp_body (fst (serve e w req)) = Some (JObj [(''error'', JStr ''Unauthorized'')])
        \<and> snd (serve e w req) = [])
   \<and> ((truthy_string (GROK_API_KEY e) \<or> truthy_string (CAMPUS_ASSISTANT_API_KEY e))
        \<and> authorization req = Some h \<and> starts_with h ''Bearer ''
        \<and> getClaims w h (replace_first h ''Bearer '' []) = ClaimsReturn claims claimsError
        \<and> (claimsError \<noteq> None \<or> \<not> truthy claims) \<longrightarrow>
        resp_status (fst (serve e w req)) = 401
        \<and> resp_body (fst (serve e w req)) = Some (JObj [(''error'', JStr ''Unauthorized'')])
        \<and> snd (serve e w req) = [GetClaims (replace_first h ''Bearer '' [])])
   \<and> ((truthy_string (GROK_API_KEY e) \<or> truthy_string (CAMPUS_ASSISTANT_API_KEY e))
        \<and> authorization req = Some h \<and> starts_with h ''Bearer ''
        \<and> getClaims w h (replace_first h ''Bearer '' []) = ClaimsThrows err \<longrightarrow>
        resp_status (fst (serve e w req)) = 500
        \<and> resp_body (fst (serve e w req)) = Some (JObj [(''error'', JStr (error_message err))])
        \<and> snd (serve e w req) = [GetClaims (replace_first h ''Bearer '' [])])
   \<and> ((truthy_string (GROK_API_KEY e) \<or> truthy_string (CAMPUS_ASSISTANT_API_KEY e))
        \<and> authorization req = Some h \<and> starts_with h ''Bearer ''
        \<and> getClaims w h (replace_first h ''Bearer '' []) = ClaimsReturn claims None \<and> truthy claims
        \<and> json_parse w (body_text req) = Inr body \<and> body \<noteq> JNull
        \<and> \<not> (\<exists>s. opt_member (Some body) ''message'' = Some (JStr s) \<and> s \<noteq> []) \<longrightarrow>
        resp_status (fst (serve e w req)) = 400
        \<and> resp_body (fst (serve e w req)) = Some (JObj [(''error'', JStr ''Message is required'')])
        \<and> snd (serve e w req) = [GetClaims (replace_first h ''Bearer '' []), ReadBody])
   \<and> ((truthy_string (GROK_API_KEY e) \<or> truthy_string (CAMPUS_ASSISTANT_API_KEY e))
        \<and> authorization req = Some h \<and> starts_with h ''Bearer ''
        \<and> getClaims w h (replace_first h ''Bearer '' []) = ClaimsReturn claims None \<and> truthy claims
        \<and> json_parse w (body_text req) = Inl parseError \<longrightarrow>
        resp_status (fst (serve e w req)) = 500
        \<and> resp_body (fst (serve e w req)) = Some (JObj [(''error'', JStr (error_message parseError))])
        \<and> snd (serve e w req) = [GetClaims (replace_first h ''Bearer '' []), ReadBody])
   \<and> ((truthy_string (GROK_API_KEY e) \<or> truthy_string (CAMPUS_ASSISTANT_API_KEY e))
        \<and> authorization req = Some h \<and> starts_with h ''Bearer ''
        \<and> getClaims w h (replace_first h ''Bearer '' []) = ClaimsReturn claims None \<and> truthy claims
        \<and> json_parse w (body_text req) = Inr JNull \<longrightarrow>
        resp_status (fst (serve e w req)) = 500
        \<and> snd (serve e w req) = [GetClaims (replace_first h ''Bearer '' []), ReadBody])"
proof -
  have unconfigured:
    "(\<not> truthy_string (GROK_API_KEY e) \<and> \<not> truthy_string (CAMPUS_ASSISTANT_API_KEY e) \<longrightarrow>
            resp_status (fst (serve e w req)) = 500
            \<and> resp_body (fst (serve e w req)) = Some (JObj [(''error'', JStr
                ''AI service not configured. Please contact administrator.'')])
            \<and> snd (serve e w req) = [])"
    using serve_unconfigured [OF assms] by (auto simp: json_response_def stringify_object_def)
  have no_bearer:
    "((truthy_string (GROK_API_KEY e) \<or> truthy_string (CAMPUS_ASSISTANT_API_KEY e))
            \<and> \<not> (\<exists>h. authorization req = Some h \<and> starts_with h ''Bearer '') \<longrightarrow>
            resp_status (fst (serve e w req)) = 401
            \<and> resp_body (fst (serve e w req)) = Some (JObj [(''error'', JStr ''Unauthorized'')])
            \<and> snd (serve e w req) = [])"
    using serve_no_bearer [OF assms] by (auto simp: json_response_def stringify_object_def)
  have rejected:
    "((truthy_string (GROK_API_KEY e) \<or> truthy_string (CAMPUS_ASSISTANT_API_KEY e))
            \<and> authorization req = Some h \<and> starts_with h ''Bearer ''
            \<and> getClaims w h (replace_first h ''Bearer '' []) = ClaimsReturn claims claimsError
            \<and> (claimsError \<noteq> None \<or> \<not> truthy claims) \<longrightarrow>
            resp_status (fst (serve e w req)) = 401
            \<and> resp_body (fst (serve e w req)) = Some (JObj [(''error'', JStr ''Unauthorized'')])
            \<and> snd (serve e w req) = [GetClaims (replace_first h ''Bearer '' [])])"
    using serve_claims_rejected [OF assms] by (auto simp: json_response_def stringify_object_def)
  have verifier_throws:
    "((truthy_string (GROK_API_KEY e) \<or> truthy_string (CAMPUS_ASSISTANT_API_KEY e))
            \<and> authorization req = Some h \<and> starts_with h ''Bearer ''
            \<and> getClaims w h (replace_first h ''Bearer '' []) = ClaimsThrows err \<longrightarrow>
            resp_status (fst (serve e w req)) = 500
            \<and> resp_body (fst (serve e w req)) = Some (JObj [(''error'', JStr (error_message err))])
            \<and> snd (serve e w req) = [GetClaims (replace_first h ''Bearer '' [])])"
    using serve_claims_throws [OF assms] by (auto simp: json_response_def stringify_object_def)
  have bad_message:
    "((truthy_string (GROK_API_KEY e) \<or> truthy_string (CAMPUS_ASSISTANT_API_KEY e))
            \<and> authorization req = Some h \<and> starts_with h ''Bearer ''
            \<and> getClaims w h (replace_first h ''Bearer '' []) = ClaimsReturn claims None \<and> truthy claims
            \<and> json_parse w (body_text req) = Inr body \<and> body \<noteq> JNull
            \<and> \<not> (\<exists>s. opt_member (Some body) ''message'' = Some (JStr s) \<and> s \<noteq> []) \<longrightarrow>
            resp_status (fst (serve e w req)) = 400
            \<and> resp_body (fst (serve e w req)) = Some (JObj [(''error'', JStr ''Message is required'')])
            \<and> snd (serve e w req) = [GetClaims (replace_first h ''Bearer '' []), ReadBody])"
    using serve_message_rejected [OF assms] by (auto simp: json_response_def stringify_object_def)
  have body_throws:
    "((truthy_string (GROK_API_KEY e) \<or> truthy_string (CAMPUS_ASSISTANT_API_KEY e))
            \<and> authorization req = Some h \<and> starts_with h ''Bearer ''
            \<and> getClaims w h (replace_first h ''Bearer '' []) = ClaimsReturn claims None \<and> truthy claims
            \<and> json_parse w (body_text req) = Inl parseError \<longrightarrow>
            resp_status (fst (serve e w req)) = 500
            \<and> resp_body (fst (serve e w req)) = Some (JObj [(''error'', JStr (error_message parseError))])
            \<and> snd (serve e w req) = [GetClaims (replace_first h ''Bearer '' []), ReadBody])"
    using serve_body_throws [OF assms] by (auto simp: json_response_def stringify_object_def)
  have body_null:
    "((truthy_string (GROK_API_KEY e) \<or> truthy_string (CAMPUS_ASSISTANT_API_KEY e))
            \<and> authorization req = Some h \<and> starts_with h ''Bearer ''
            \<and> getClaims w h (replace_first h ''Bearer '' []) = ClaimsReturn claims None \<and> truthy claims
            \<and> json_parse w (body_text req) = Inr JNull \<longrightarrow>
            resp_status (fst (serve e w req)) = 500
            \<and> snd (serve e w req) = [GetClaims (replace_first h ''Bearer '' []), ReadBody])"
    using serve_body_null [OF assms] by (auto simp: json_response_def stringify_object_def)
  show ?thesis
    by (intro conjI unconfigured no_bearer rejected verifier_throws bad_message body_throws body_null)
qed

text \<open>
  Claim C5, instances: no keys; no header; a token the verifier rejects; a verifier that
  throws; an empty message; a body that is not JSON; the body \<^verbatim>\<open>null\<close>.
\<close>

theorem preconditions_checked_in_order_witness:
  "(resp_status (fst (serve unconfigured_env world_primary_answers sample_request)) = 500
    \<and> resp_body (fst (serve unconfigured_env world_primary_answers sample_request)) =
        Some (JObj [(''error'',
                JStr ''AI service not configured. Please contact administrator.'')])
    \<and> snd (serve unconfigured_env world_primary_answers sample_request) = [])
   \<and> (resp_status (fst (serve sample_env world_primary_answers request_without_header)) = 401
     \<and> snd (serve sample_env world_primary_answers request_without_header) = [])
   \<and> (resp_status (fst (serve sample_env world_primary_answers request_bad_token)) = 401
     \<and> snd (serve sample_env world_primary_answers request_bad_token) =
         [GetClaims ''bad-token''])
   \<and> (resp_status (fst (serve sample_env world_verifier_throws sample_request)) = 500
     \<and> resp_body (fst (serve sample_env world_verifier_throws sample_request)) =
         Some (JObj [(''error'', JStr ''auth server unreachable'')])
     \<and> snd (serve sample_env world_verifier_throws sample_request) =
         [GetClaims ''good-token''])
   \<and> (resp_status (fst (serve sample_env world_primary_answers request_empty_message)) = 400
     \<and> resp_body (fst (serve sample_env world_primary_answers request_empty_message)) =
         Some (JObj [(''error'', JStr ''Message is required'')])
     \<and> snd (serve sample_env world_primary_answers request_empty_message) =
         [GetClaims ''good-token'', ReadBody])
   \<and> (resp_status (fst (serve sample_env world_primary_answers request_not_json)) = 500
     \<and> snd (serve sample_env world_primary_answers request_not_json) =
         [GetClaims ''good-token'', ReadBody])
   \<and> (resp_status (fst (serve sample_env world_primary_answers request_null_body)) = 500
     \<and> snd (serve sample_env world_primary_answers request_null_body) =
         [GetClaims ''good-token'', ReadBody])"
  using
    preconditions_checked_in_order
      [where req = sample_request and e = unconfigured_env and w = world_primary_answers]
    preconditions_checked_in_order
      [where req = request_without_header and e = sample_env and w = world_primary_answers]
    preconditions_checked_in_order
      [where req = request_bad_token and e = sample_env and w = world_primary_answers
         and h = "''Bearer bad-token''" and claims = None and claimsError = "Some ''invalid JWT''"]
    preconditions_checked_in_order
      [where req = sample_request and e = sample_env and w = world_verifier_throws
         and h = "''Bearer good-token''"
         and err = "NetworkError ''auth server unreachable''"]
    preconditions_checked_in_order
      [where req = request_empty_message and e = sample_env and w = world_primary_answers
         and h = "''Bearer good-token''" and claims = "Some (JObj [(''sub'', JStr ''user-1'')])"
         and body = "JObj [(''message'', JStr [])]"]
    preconditions_checked_in_order
      [where req = request_not_json and e = sample_env and w = world_primary_answers
         and h = "''Bearer good-token''" and claims = "Some (JObj [(''sub'', JStr ''user-1'')])"
         and parseError = "SyntaxError ''Unexpected token in JSON''"]
    preconditions_checked_in_order
      [where req = request_null_body and e = sample_env and w = world_primary_answers
         and h = "''Bearer good-token''" and claims = "Some (JObj [(''sub'', JStr ''user-1'')])"]
  by (simp add: sample_request_def unconfigured_env_def sample_env_def request_without_header_def
      request_bad_token_def request_empty_message_def request_not_json_def request_null_body_def
      world_primary_answers_def world_verifier_throws_def sample_world_def
      sample_getClaims_def sample_parse_def starts_with_def sample_token sample_bad_token)

text \<open>
  Claim C5 as worded asks for 401 whenever identity verification does not succeed and for
  400 whenever the message is not valid. With a verifier that throws the answer is 500,
  and with the body \<^verbatim>\<open>null\<close>, which carries no message, the answer is 500.
\<close>

theorem verifier_throws_counterexample:
  "getClaims world_verifier_throws ''Bearer good-token'' ''good-token'' =
     ClaimsThrows (NetworkError ''auth server unreachable'')
   \<and> resp_status (fst (serve sample_env world_verifier_throws sample_request)) = 500
   \<and> resp_status (fst (serve sample_env world_verifier_throws sample_request)) \<noteq> 401
   \<and> json_parse world_primary_answers (body_text request_null_body) = Inr JNull
   \<and> resp_status (fst (serve sample_env world_primary_answers request_null_body)) = 500
   \<and> resp_status (fst (serve sample_env world_primary_answers request_null_body)) \<noteq> 400"
proof -
  have v: "getClaims world_verifier_throws ''Bearer good-token'' ''good-token'' =
      ClaimsThrows (NetworkError ''auth server unreachable'')"
    by (simp add: world_verifier_throws_def)
  have "serve sample_env world_verifier_throws sample_request =
      (json_response 500 [(''error'', Some (JStr ''auth server unreachable''))],
       [GetClaims ''good-token''])"
    using serve_claims_throws
      [where req = sample_request and e = sample_env and w = world_verifier_throws
         and h = "''Bearer good-token''" and err = "NetworkError ''auth server unreachable''"]
      v
    by (simp add: sample_request_def sample_env_def starts_with_def sample_token)
  then have a: "resp_status (fst (serve sample_env world_verifier_throws sample_request)) = 500"
    by (simp add: json_response_def)
  have n: "json_parse world_primary_answers (body_text request_null_body) = Inr JNull"
    by (simp add: world_primary_answers_def sample_world_def request_null_body_def
        sample_request_def sample_parse_def)
  have b: "resp_status (fst (serve sample_env world_primary_answers request_null_body)) = 500"
    using serve_body_null
      [where req = request_null_body and e = sample_env and w = world_primary_answers
         and h = "''Bearer good-token''" and claims = "Some (JObj [(''sub'', JStr ''user-1'')])"]
      n
    by (simp add: request_null_body_def sample_request_def sample_env_def
        world_primary_answers_def sample_world_def sample_getClaims_def starts_with_def
        sample_token)
  show ?thesis
    using v a n b by simp
qed

subsection \<open>Rejecting the message\<close>




subsection \<open>Assembling the provider messages\<close>

lemma history_entries_objects:
  "history_entries (map JObj objs) =
     Inr (map (\<lambda>kvs. \<lparr>role = map_of kvs ''role'', content = map_of kvs ''content''\<rparr>) objs)"
  by (induction objs) simp_all

text \<open>
  Claim C7. A history entry is a JSON object; \<open>objs\<close> holds the fields of each, in any
  key order and with any further keys. For N entries (N may be 0) the assembled sequence
  is: first the message with role \<^verbatim>\<open>system\<close> and the fixed prompt as content, then for
  each entry, in order, the message with exactly that entry's \<^verbatim>\<open>role\<close> and
  \<^verbatim>\<open>content\<close>, then last the message with role \<^verbatim>\<open>user\<close> and the new text \<open>m\<close> as
  content; its length is N + 2.
\<close>

theorem messages_assembled_in_order:
  "build_messages m (JArr (map JObj objs)) tr =
     (Next (\<lparr>role = Some (JStr ''system''), content = Some (JStr IARE_SYSTEM_PROMPT)\<rparr>
            # map (\<lambda>kvs. \<lparr>role = map_of kvs ''role'', content = map_of kvs ''content''\<rparr>) objs
            @ [\<lparr>role = Some (JStr ''user''), content = m\<rparr>]), tr)
   \<and> length
       (\<lparr>role = Some (JStr ''system''), content = Some (JStr IARE_SYSTEM_PROMPT)\<rparr>
        # map (\<lambda>kvs. \<lparr>role = map_of kvs ''role'', content = map_of kvs ''content''\<rparr>) objs
        @ [\<lparr>role = Some (JStr ''user''), content = m\<rparr>]) = length objs + 2"
  by (simp add: build_messages_def history_entries_objects system_message_def user_message_def)

text \<open>
  Claim C7, instances: a history of two valid entries, the second with its keys in the
  other order, and the empty history. The prompt that heads both begins with the words of
  line 9 of the source.
\<close>

theorem messages_assembled_in_order_witness:
  "build_messages (Some (JStr ''Fees?''))
     (JArr [JObj [(''role'', JStr ''user''), (''content'', JStr ''Hello'')],
            JObj [(''content'', JStr ''Hi there''), (''role'', JStr ''assistant'')]]) [] =
     (Next [\<lparr>role = Some (JStr ''system''), content = Some (JStr IARE_SYSTEM_PROMPT)\<rparr>,
            \<lparr>role = Some (JStr ''user''), content = Some (JStr ''Hello'')\<rparr>,
            \<lparr>role = Some (JStr ''assistant''), content = Some (JStr ''Hi there'')\<rparr>,
            \<lparr>role = Some (JStr ''user''), content = Some (JStr ''Fees?'')\<rparr>], [])
   \<and> build_messages (Some (JStr ''Fees?'')) (JArr []) [] =
     (Next [\<lparr>role = Some (JStr ''system''), content = Some (JStr IARE_SYSTEM_PROMPT)\<rparr>,
            \<lparr>role = Some (JStr ''user''), content = Some (JStr ''Fees?'')\<rparr>], [])
   \<and> take 36 IARE_SYSTEM_PROMPT = ''You are a friendly and helpful AI As''"
proof -
  have prompt: "take 36 IARE_SYSTEM_PROMPT = ''You are a friendly and helpful AI As''"
    by (simp add: IARE_SYSTEM_PROMPT_def)
  show ?thesis
    using
      messages_assembled_in_order
        [of "Some (JStr ''Fees?'')"
            "[[(''role'', JStr ''user''), (''content'', JStr ''Hello'')],
              [(''content'', JStr ''Hi there''), (''role'', JStr ''assistant'')]]" "[]"]
      messages_assembled_in_order [of "Some (JStr ''Fees?'')" "[]" "[]"]
      prompt
    by simp
qed

subsection \<open>Shared facts about whole runs\<close>

lemma preconditions_Next_configured:
  assumes "preconditions e w req [] = (Next ms, tr)"
  shows "truthy_string (GROK_API_KEY e) \<or> truthy_string (CAMPUS_ASSISTANT_API_KEY e)"
proof (rule ccontr)
  assume "\<not> (truthy_string (GROK_API_KEY e) \<or> truthy_string (CAMPUS_ASSISTANT_API_KEY e))"
  then have "\<exists>r. preconditions e w req [] = (Return r, [])"
    by (simp add: preconditions_def check_config_def)
  with assms show False by auto
qed

lemma sample_preconditions_env:
  assumes "truthy_string (GROK_API_KEY e) \<or> truthy_string (CAMPUS_ASSISTANT_API_KEY e)"
  shows "preconditions e (sample_world p s) sample_request [] =
     (Next sample_messages, [GetClaims ''good-token'', ReadBody])"
proof -
  have "read_message (sample_world p s) sample_request [GetClaims ''good-token''] =
      (Next (Some (JStr ''Hi''), JArr []), [GetClaims ''good-token'', ReadBody])"
    by (simp add: read_message_def sample_world_def sample_request_def sample_parse_def)
  then show ?thesis
    using authenticated_steps
      [OF assms, where req = sample_request and w = "sample_world p s"
         and h = "''Bearer good-token''" and claims = "Some (JObj [(''sub'', JStr ''user-1'')])"]
    by (simp add: sample_request_def sample_world_def sample_getClaims_def starts_with_def
        sample_token build_messages_def sample_messages_def)
qed

subsection \<open>A provider call that throws\<close>








subsection \<open>No provider could answer\<close>

text \<open>Which runs of the two provider steps can end in 503.\<close>

lemma providers_primary_unconfigured:
  assumes "\<not> truthy_string (GROK_API_KEY e)"
    and "truthy_string (CAMPUS_ASSISTANT_API_KEY e)"
  shows "resp_status (fst (catch_all (providers e w messages tr))) \<noteq> 503"
proof -
  obtain campusKey where k: "CAMPUS_ASSISTANT_API_KEY e = Some campusKey" "campusKey \<noteq> []"
    using assms(2) by (cases "CAMPUS_ASSISTANT_API_KEY e") auto
  show ?thesis
    using k
    by (auto simp: providers_def try_grok_unconfigured [OF assms(1)] try_campus_def
        callCampusAssistantAI_def finish_def json_response_def
        split: sum.splits prod.splits)
qed

lemma providers_campus_attempted:
  assumes "CAMPUS_ASSISTANT_API_KEY e = Some campusKey" and "campusKey \<noteq> []"
    and "\<not> truthy aiResponse"
  shows "resp_status
      (fst (catch_all (and_then (try_campus e w messages (aiResponse, usedProvider) tr) finish)))
    \<noteq> 503"
  using assms
  by (auto simp: try_campus_def callCampusAssistantAI_def finish_def json_response_def
      split: sum.splits prod.splits)

lemma providers_primary_configured:
  assumes "GROK_API_KEY e = Some grokKey" and "grokKey \<noteq> []"
  shows "(resp_status (fst (catch_all (providers e w messages tr))) = 503) =
    (\<not> truthy_string (CAMPUS_ASSISTANT_API_KEY e)
     \<and> (\<exists>st text. fetch w GROK_URL grokKey GROK_MODEL messages = FetchResponse st text
          \<and> st \<in> {403, 429, 500, 502, 503}))"
proof (cases "fetch w GROK_URL grokKey GROK_MODEL messages")
  case (FetchThrows err)
  then show ?thesis
    by (simp add: providers_def try_grok_throws [OF assms] json_response_def)
next
  case (FetchResponse st upstream)
  show ?thesis
  proof (cases "response_ok st")
    case False
    note grok = try_grok_failure [OF assms FetchResponse False]
    show ?thesis
    proof (cases "st \<in> {403, 429, 500, 502, 503}")
      case retry: True
      show ?thesis
      proof (cases "truthy_string (CAMPUS_ASSISTANT_API_KEY e)")
        case True
        then obtain campusKey where
          k: "CAMPUS_ASSISTANT_API_KEY e = Some campusKey" "campusKey \<noteq> []"
          by (cases "CAMPUS_ASSISTANT_API_KEY e") auto
        have "resp_status (fst (catch_all (and_then
                (try_campus e w messages (None, ''none'') (tr @ [Fetch GROK_URL])) finish)))
              \<noteq> 503"
          by (rule providers_campus_attempted [OF k]) simp
        then show ?thesis
          using retry True by (simp add: providers_def grok)
      next
        case False
        then show ?thesis
          using retry FetchResponse
          by (simp add: providers_def grok try_campus_skipped finish_def json_response_def)
      qed
    next
      case hard: False
      then have "st \<noteq> 503" by auto
      then show ?thesis
        using hard FetchResponse
        by (auto simp: providers_def grok json_response_def new_response_def split: sum.splits)
    qed
  next
    case True
    then have not_retry: "st \<notin> {403, 429, 500, 502, 503}"
      by (auto simp: response_ok_def)
    have "resp_status (fst (catch_all (providers e w messages tr))) \<noteq> 503"
      using assms FetchResponse True
      by (auto simp: providers_def try_grok_def callGrok_def provider_outcome_def
          try_campus_skipped finish_def json_response_def new_response_def
          split: sum.splits)
    then show ?thesis
      using FetchResponse not_retry by simp
  qed
qed

text \<open>
  Claim C9, as the code has it. For a request that passes every precondition, the answer
  is 503 exactly when no secondary key is configured and the primary, configured, failed
  with one of the statuses 403, 429, 500, 502, 503; the body then carries
  \<^verbatim>\<open>No AI provider could fulfill the request.\<close> and only the primary was fetched. A
  secondary that was attempted and failed never gives 503.
\<close>

theorem all_providers_failed_exactly_when:
  assumes "http_method req \<noteq> ''OPTIONS''"
    and "preconditions e w req [] = (Next messages, tr0)"
  shows
    "(resp_status (fst (serve e w req)) = 503) =
       (\<not> truthy_string (CAMPUS_ASSISTANT_API_KEY e)
        \<and> (\<exists>grokKey st text. GROK_API_KEY e = Some grokKey \<and> grokKey \<noteq> []
             \<and> fetch w GROK_URL grokKey GROK_MODEL messages = FetchResponse st text
             \<and> st \<in> {403, 429, 500, 502, 503}))
   \<and> (resp_status (fst (serve e w req)) = 503 \<longrightarrow>
        serve e w req =
          (json_response 503 [(''error'', Some (JStr ''No AI provider could fulfill the request.''))],
           tr0 @ [Fetch GROK_URL]))"
proof -
  have iff: "(resp_status (fst (serve e w req)) = 503) =
       (\<not> truthy_string (CAMPUS_ASSISTANT_API_KEY e)
        \<and> (\<exists>grokKey st text. GROK_API_KEY e = Some grokKey \<and> grokKey \<noteq> []
             \<and> fetch w GROK_URL grokKey GROK_MODEL messages = FetchResponse st text
             \<and> st \<in> {403, 429, 500, 502, 503}))"
  proof (cases "truthy_string (GROK_API_KEY e)")
    case True
    then obtain grokKey where k: "GROK_API_KEY e = Some grokKey" "grokKey \<noteq> []"
      by (cases "GROK_API_KEY e") auto
    show ?thesis
      using k by (simp add: serve_after_preconditions [OF assms] providers_primary_configured [OF k])
  next
    case False
    then have "truthy_string (CAMPUS_ASSISTANT_API_KEY e)"
      using preconditions_Next_configured [OF assms(2)] by blast
    then have "resp_status (fst (serve e w req)) \<noteq> 503"
      by (simp add: serve_after_preconditions [OF assms] providers_primary_unconfigured [OF False])
    moreover have "\<not> (\<exists>grokKey. GROK_API_KEY e = Some grokKey \<and> grokKey \<noteq> [])"
      using False by (cases "GROK_API_KEY e") auto
    ultimately show ?thesis by blast
  qed
  have "serve e w req =
      (json_response 503 [(''error'', Some (JStr ''No AI provider could fulfill the request.''))],
       tr0 @ [Fetch GROK_URL])"
    if "resp_status (fst (serve e w req)) = 503"
  proof -
    from that iff obtain grokKey st upstream where
      c: "\<not> truthy_string (CAMPUS_ASSISTANT_API_KEY e)"
      and k: "GROK_API_KEY e = Some grokKey" "grokKey \<noteq> []"
      and f: "fetch w GROK_URL grokKey GROK_MODEL messages = FetchResponse st upstream"
      and r: "st \<in> {403, 429, 500, 502, 503}"
      by blast
    show ?thesis
      using r c
      by (simp add: serve_after_preconditions [OF assms] providers_def
          try_grok_failure [OF k f retryable_not_ok [OF r]] try_campus_skipped finish_def)
  qed
  with iff show ?thesis by blast
qed

text \<open>Claim C9, instance: only the primary key is set and the primary answers 503.\<close>

theorem all_providers_failed_exactly_when_witness:
  "serve env_primary_only world_primary_503 sample_request =
     (json_response 503 [(''error'', Some (JStr ''No AI provider could fulfill the request.''))],
      [GetClaims ''good-token'', ReadBody, Fetch GROK_URL])"
proof -
  have configured: "truthy_string (GROK_API_KEY env_primary_only)
      \<or> truthy_string (CAMPUS_ASSISTANT_API_KEY env_primary_only)"
    by (simp add: env_primary_only_def)
  have pre: "preconditions env_primary_only world_primary_503 sample_request [] =
      (Next sample_messages, [GetClaims ''good-token'', ReadBody])"
    unfolding world_primary_503_def by (rule sample_preconditions_env [OF configured])
  have "\<not> truthy_string (CAMPUS_ASSISTANT_API_KEY env_primary_only)
      \<and> (\<exists>grokKey st text. GROK_API_KEY env_primary_only = Some grokKey \<and> grokKey \<noteq> []
           \<and> fetch world_primary_503 GROK_URL grokKey GROK_MODEL sample_messages =
               FetchResponse st text
           \<and> st \<in> {403, 429, 500, 502, 503})"
    by (simp add: env_primary_only_def world_primary_503_def sample_fetch_grok)
  then show ?thesis
    using all_providers_failed_exactly_when [OF sample_method pre] by simp
qed

text \<open>
  Claim C9 as worded asks for 503 whenever neither provider succeeded, and names the case
  of an unconfigured primary with a failing secondary. With only the secondary key set
  and the secondary answering 500, the answer is 500.
\<close>

theorem secondary_failed_not_503_counterexample:
  "GROK_API_KEY env_secondary_only = None
   \<and> fetch (world_both_fail 500) CAMPUS_URL ''gateway-key'' CAMPUS_MODEL sample_messages =
       FetchResponse 500 ''upstream says no''
   \<and> resp_status (fst (serve env_secondary_only (world_both_fail 500) sample_request)) = 500
   \<and> resp_status (fst (serve env_secondary_only (world_both_fail 500) sample_request)) \<noteq> 503"
proof -
  have configured: "truthy_string (GROK_API_KEY env_secondary_only)
      \<or> truthy_string (CAMPUS_ASSISTANT_API_KEY env_secondary_only)"
    by (simp add: env_secondary_only_def)
  have pre: "preconditions env_secondary_only (world_both_fail 500) sample_request [] =
      (Next sample_messages, [GetClaims ''good-token'', ReadBody])"
    unfolding world_both_fail_def by (rule sample_preconditions_env [OF configured])
  have f: "fetch (world_both_fail 500) CAMPUS_URL ''gateway-key'' CAMPUS_MODEL sample_messages =
      FetchResponse 500 ''upstream says no''"
    by (simp add: world_both_fail_def sample_fetch_campus)
  have k: "GROK_API_KEY env_secondary_only = None"
      "CAMPUS_ASSISTANT_API_KEY env_secondary_only = Some ''gateway-key''"
    by (simp_all add: env_secondary_only_def)
  have "resp_status (fst (serve env_secondary_only (world_both_fail 500) sample_request)) = 500"
    by (simp add: serve_after_preconditions [OF sample_method pre] providers_def try_grok_def
        try_campus_def callCampusAssistantAI_def provider_outcome_def f k response_ok_def
        json_response_def)
  then show ?thesis
    using f k by simp
qed

subsection \<open>Primary provider: an answer without text\<close>

text \<open>
  Claim C10. When the primary call is ok but its first choice carries no text (missing,
  or empty, or any other falsy value), the result has no status, so the failure counts as
  hard: the handler answers 500 with the primary error message, the body has no
  \<^verbatim>\<open>details\<close> and no \<^verbatim>\<open>status\<close>, and the secondary endpoint is not fetched, whatever
  the secondary key is.
\<close>

theorem primary_empty_answer_is_hard_failure:
  assumes "http_method req \<noteq> ''OPTIONS''"
    and "preconditions e w req [] = (Next messages, tr0)"
    and "GROK_API_KEY e = Some grokKey" and "grokKey \<noteq> []"
    and "fetch w GROK_URL grokKey GROK_MODEL messages = FetchResponse st text"
    and "response_ok st"
    and "json_parse w text = Inr data"
    and "first_choice_content data = Inr c"
    and "\<not> truthy c"
  shows "resp_status (fst (serve e w req)) = 500
    \<and> resp_body (fst (serve e w req)) =
        Some (JObj [(''error'', JStr ''AI provider error. Please check your Grok API key.'')])
    \<and> body_field (fst (serve e w req)) ''details'' = None
    \<and> snd (serve e w req) = tr0 @ [Fetch GROK_URL]
    \<and> Fetch CAMPUS_URL \<notin> set (snd (serve e w req))"
proof -
  obtain tok where tr0: "tr0 = [GetClaims tok, ReadBody]"
    using preconditions_Next_trace [OF assms(2)] by blast
  have "serve e w req =
      (json_response 500
         [(''error'', Some (JStr ''AI provider error. Please check your Grok API key.'')),
          (''details'', None),
          (''status'', None)], tr0 @ [Fetch GROK_URL])"
    using assms(9)
    by (simp add: serve_after_preconditions [OF assms(1,2)] providers_def
        try_grok_answer [OF assms(3-8)])
  then show ?thesis
    using url_distinct
    by (simp add: json_response_def stringify_object_def body_field_def tr0)
qed

text \<open>
  Claim C10, instance: both keys set, the primary answers 200 with an empty
  \<^verbatim>\<open>choices\<close> array.
\<close>

theorem primary_empty_answer_is_hard_failure_witness:
  "CAMPUS_ASSISTANT_API_KEY sample_env = Some ''gateway-key''
   \<and> resp_status (fst (serve sample_env world_primary_no_choices sample_request)) = 500
   \<and> body_field (fst (serve sample_env world_primary_no_choices sample_request)) ''details'' = None
   \<and> snd (serve sample_env world_primary_no_choices sample_request) =
       [GetClaims ''good-token'', ReadBody, Fetch GROK_URL]"
proof -
  have pre: "preconditions sample_env world_primary_no_choices sample_request [] =
      (Next sample_messages, [GetClaims ''good-token'', ReadBody])"
    unfolding world_primary_no_choices_def by (rule sample_preconditions)
  have f: \<open>fetch world_primary_no_choices GROK_URL ''xai-key'' GROK_MODEL sample_messages =
      FetchResponse 200 ''{"choices":[]}''\<close>
    by (simp add: world_primary_no_choices_def sample_fetch_grok)
  have p: \<open>json_parse world_primary_no_choices ''{"choices":[]}'' =
      Inr (JObj [(''choices'', JArr [])])\<close>
    by (simp add: world_primary_no_choices_def sample_json_parse sample_parse_def)
  have c: "first_choice_content (JObj [(''choices'', JArr [])]) = Inr None"
    by (simp add: first_choice_content_def)
  show ?thesis
    using primary_empty_answer_is_hard_failure
      [OF sample_method pre sample_grok_key _ f _ p c]
    by (simp add: response_ok_def sample_campus_key)
qed

end
